theory Spec2Isabelle
  imports Main "HOL-Library.Word"
begin

section \<open>JavaScript strings\<close>

text \<open>
  A JavaScript string is a sequence of UTF-16 code units. Literals of the script are
  ASCII and are written \<open>js ''...''\<close>.
\<close>

type_synonym js_string = "16 word list"

definition unit_of_char :: "char \<Rightarrow> 16 word" where
  "unit_of_char c = of_nat (of_char c)"

definition js :: "string \<Rightarrow> js_string" where
  "js s = map unit_of_char s"

text \<open>
  The code units that \<open>String.prototype.trim\<close> strips: ECMAScript's WhiteSpace (TAB, VT,
  FF, ZWNBSP and the space separators of Unicode) and LineTerminator (LF, CR, LS, PS).
\<close>

definition is_whitespace :: "16 word \<Rightarrow> bool" where
  "is_whitespace c \<longleftrightarrow>
     c = 0x09 \<or> c = 0x0A \<or> c = 0x0B \<or> c = 0x0C \<or> c = 0x0D \<or> c = 0x20 \<or> c = 0xA0 \<or>
     c = 0x1680 \<or> (0x2000 \<le> c \<and> c \<le> 0x200A) \<or> c = 0x2028 \<or> c = 0x2029 \<or>
     c = 0x202F \<or> c = 0x205F \<or> c = 0x3000 \<or> c = 0xFEFF"

text \<open>\<open>s.trim()\<close>: whitespace is removed from both ends.\<close>

definition trim :: "js_string \<Rightarrow> js_string" where
  "trim s = rev (dropWhile is_whitespace (rev (dropWhile is_whitespace s)))"

text \<open>
  The specification speaks of trimming trailing whitespace only; this is that operation,
  written from the specification's words for comparison with \<open>trim\<close>.
\<close>

definition spec_trim_trailing :: "js_string \<Rightarrow> js_string" where
  "spec_trim_trailing s = rev (dropWhile is_whitespace (rev s))"

text \<open>
  The newline normalisation of a textarea: its \<open>value\<close> getter returns the stored text
  with every CR LF pair, and then every remaining CR, replaced by LF.
\<close>

fun normalize_newlines :: "js_string \<Rightarrow> js_string" where
  "normalize_newlines [] = []"
| "normalize_newlines [c] = [if c = 0x0D then 0x0A else c]"
| "normalize_newlines (c # d # ds) =
     (if c = 0x0D \<and> d = 0x0A then 0x0A # normalize_newlines ds
      else if c = 0x0D then 0x0A # normalize_newlines (d # ds)
      else c # normalize_newlines (d # ds))"

text \<open>\<open>hay.includes(needle)\<close>: the needle occurs as a contiguous run of the haystack.\<close>

fun starts_with :: "js_string \<Rightarrow> js_string \<Rightarrow> bool" where
  "starts_with s [] = True"
| "starts_with [] (c # cs) = False"
| "starts_with (x # xs) (c # cs) = (x = c \<and> starts_with xs cs)"

fun js_includes :: "js_string \<Rightarrow> js_string \<Rightarrow> bool" where
  "js_includes [] needle = (needle = [])"
| "js_includes (x # xs) needle = (starts_with (x # xs) needle \<or> js_includes xs needle)"

text \<open>Decimal notation of a non-negative integer, as a template literal prints it.\<close>

fun decimal :: "nat \<Rightarrow> string" where
  "decimal n =
     (if n < 10 then [''0123456789'' ! n]
      else decimal (n div 10) @ [''0123456789'' ! (n mod 10)])"

declare decimal.simps [simp del]

section \<open>Values read from a response body\<close>

text \<open>
  What \<open>response.json()\<close> resolves to. The number type is a parameter: the script never
  computes with numbers, it only converts values to strings and tests their truthiness,
  and the engine's conversions are taken from the environment. \<open>JObj\<close> lists the own
  properties of the parsed object, each key once.
\<close>

datatype 'n json =
    JNull
  | JBool bool
  | JNum 'n
  | JStr js_string
  | JArr "'n json list"
  | JObj "(js_string \<times> 'n json) list"

datatype 'n js_value = Undefined | Json "'n json"

datatype error_kind = TypeError | SyntaxError | PlainError | OtherError

datatype js_error = JsError (err_kind: error_kind) (message: js_string)

text \<open>
  What the engine decides: how a number prints and whether it is truthy, and the messages
  of the TypeErrors it raises itself (a property read from \<open>null\<close>, by property name, and an
  object that cannot be converted to a primitive).
\<close>

record 'n engine =
  number_to_string :: "'n \<Rightarrow> js_string"
  number_truthy :: "'n \<Rightarrow> bool"
  null_read_message :: "js_string \<Rightarrow> js_string"
  to_primitive_message :: js_string

fun join_comma :: "js_string list \<Rightarrow> js_string" where
  "join_comma [] = []"
| "join_comma [s] = s"
| "join_comma (s # t # ss) = s @ js '','' @ join_comma (t # ss)"

text \<open>
  ToString on a parsed JSON value. An array joins the strings of its elements with commas,
  \<open>null\<close> elements as empty strings. An object prints as \<open>[object Object]\<close> through the
  inherited \<open>toString\<close>; when it has an own property \<open>toString\<close> (which, coming from JSON,
  is not callable) the conversion finds no usable method and throws a TypeError. The first
  error met ends the conversion.
\<close>

fun json_to_string :: "'n engine \<Rightarrow> 'n json \<Rightarrow> js_error + js_string"
  and elements_to_strings :: "'n engine \<Rightarrow> 'n json list \<Rightarrow> js_error + js_string list" where
  "json_to_string g JNull = Inr (js ''null'')"
| "json_to_string g (JBool b) = Inr (if b then js ''true'' else js ''false'')"
| "json_to_string g (JNum n) = Inr (number_to_string g n)"
| "json_to_string g (JStr s) = Inr s"
| "json_to_string g (JArr xs) =
     (case elements_to_strings g xs of
        Inl err \<Rightarrow> Inl err
      | Inr ss \<Rightarrow> Inr (join_comma ss))"
| "json_to_string g (JObj kvs) =
     (if map_of kvs (js ''toString'') = None then Inr (js ''[object Object]'')
      else Inl (JsError TypeError (to_primitive_message g)))"
| "elements_to_strings g [] = Inr []"
| "elements_to_strings g (x # xs) =
     (case (if x = JNull then Inr [] else json_to_string g x) of
        Inl err \<Rightarrow> Inl err
      | Inr s \<Rightarrow>
          (case elements_to_strings g xs of
             Inl err \<Rightarrow> Inl err
           | Inr ss \<Rightarrow> Inr (s # ss)))"

fun to_string :: "'n engine \<Rightarrow> 'n js_value \<Rightarrow> js_error + js_string" where
  "to_string g Undefined = Inr (js ''undefined'')"
| "to_string g (Json v) = json_to_string g v"

text \<open>ToBoolean.\<close>

fun truthy :: "'n engine \<Rightarrow> 'n js_value \<Rightarrow> bool" where
  "truthy g Undefined = False"
| "truthy g (Json JNull) = False"
| "truthy g (Json (JBool b)) = b"
| "truthy g (Json (JNum n)) = number_truthy g n"
| "truthy g (Json (JStr s)) = (s \<noteq> [])"
| "truthy g (Json (JArr xs)) = True"
| "truthy g (Json (JObj kvs)) = True"

text \<open>
  \<open>data.k\<close> for one of the two names the script reads (\<open>error\<close>, \<open>url\<close>), neither of which
  is a built-in property of strings, numbers, booleans or arrays: reading from \<open>null\<close>
  throws a TypeError, an object yields its own property, anything else \<open>undefined\<close>.
\<close>

fun get_prop :: "'n engine \<Rightarrow> 'n json \<Rightarrow> js_string \<Rightarrow> js_error + 'n js_value" where
  "get_prop g JNull k = Inl (JsError TypeError (null_read_message g k))"
| "get_prop g (JObj kvs) k = Inr (case map_of kvs k of None \<Rightarrow> Undefined | Some v \<Rightarrow> Json v)"
| "get_prop g v k = Inr Undefined"

text \<open>
  Conversion to a DOMString on assignment to \<open>textarea.value\<close>, whose IDL attribute maps
  \<open>null\<close> to the empty string.
\<close>

fun dom_string :: "'n engine \<Rightarrow> 'n js_value \<Rightarrow> js_error + js_string" where
  "dom_string g (Json JNull) = Inr []"
| "dom_string g v = to_string g v"

section \<open>The document\<close>

text \<open>
  Nodes are references; \<open>heap\<close> gives each node its element, \<open>tree\<close> lists the nodes of the
  document in tree order. An element carries the attributes and properties the script
  reads or writes. A property assignment stores the assigned string; \<open>el_value\<close> is the
  stored value, and what the \<open>value\<close> getter of a textarea returns for it is
  \<open>textarea_value\<close>. \<open>innerHTML\<close> and \<open>textContent\<close> are kept as separate fields: the
  script writes the first on the submitter only and the second on the upload button only.
\<close>

type_synonym node = nat

datatype js_file = File (file_name: js_string)

record element =
  el_id :: "js_string option"
  tag :: js_string
  classList :: "js_string list"
  data_confirm :: "js_string option"
  form :: "node option"
  el_value :: js_string
  innerHTML :: js_string
  textContent :: js_string
  offsetWidth :: nat
  style_width :: js_string
  disabled :: bool
  files :: "js_file list option"

definition textarea_value :: "element \<Rightarrow> js_string" where
  "textarea_value t = normalize_newlines (el_value t)"

datatype event_type = Click | Change | Submit

record event =
  target :: node
  submitter :: "node option"
  defaultPrevented :: bool

text \<open>The listeners the script registers, each with the nodes its closure captured.\<close>

datatype handler =
    AutoSubmitChange
  | StyleChange
  | LoadingSubmit
  | ConfirmClick node
  | ThemeClick
  | UploadClick node
  | UploadChange node node node

text \<open>What a handler does to the world outside the document, in order.\<close>

datatype effect =
    FormSubmit node
  | ElemClick node
  | ConfirmPrompt js_string
  | AlertBox js_string
  | ConsoleError js_string js_error
  | FetchCall js_string js_string "(js_string \<times> js_file) list"
  | Uncaught js_error

record page =
  tree :: "node list"
  heap :: "node \<Rightarrow> element"
  body_classList :: "js_string list"
  localStorage :: "js_string \<rightharpoonup> js_string"
  listeners :: "(node \<times> event_type \<times> handler) list"
  trace :: "effect list"

datatype 'n json_outcome = JsonRejected js_error | JsonParsed "'n json"

datatype 'n fetch_outcome = FetchRejected js_error | FetchResponse bool "'n json_outcome"

text \<open>
  The environment of one run: the engine, the operating system's colour scheme as
  \<open>matchMedia\<close> reports it, the user's answer to a confirmation prompt, and how the upload
  request ends (rejected, or a response with its \<open>ok\<close> flag and what \<open>json()\<close> gives).
\<close>

record 'n env =
  engine :: "'n engine"
  prefers_light :: bool
  confirm_answer :: "js_string \<Rightarrow> bool"
  fetch_result :: "'n fetch_outcome"

definition getElementById :: "page \<Rightarrow> js_string \<Rightarrow> node option" where
  "getElementById p i = find (\<lambda>n. el_id (heap p n) = Some i) (tree p)"

text \<open>\<open>document.querySelectorAll('button.danger')\<close>.\<close>

definition querySelectorAll_button_danger :: "page \<Rightarrow> node list" where
  "querySelectorAll_button_danger p =
     filter (\<lambda>n. tag (heap p n) = js ''button'' \<and> js ''danger'' \<in> set (classList (heap p n)))
       (tree p)"

definition addEventListener :: "page \<Rightarrow> node \<Rightarrow> event_type \<Rightarrow> handler \<Rightarrow> page" where
  "addEventListener p n ty h = p\<lparr>listeners := listeners p @ [(n, ty, h)]\<rparr>"

definition update_node :: "page \<Rightarrow> node \<Rightarrow> (element \<Rightarrow> element) \<Rightarrow> page" where
  "update_node p n f = p\<lparr>heap := (heap p)(n := f (heap p n))\<rparr>"

definition emit :: "page \<Rightarrow> effect list \<Rightarrow> page" where
  "emit p es = p\<lparr>trace := trace p @ es\<rparr>"

text \<open>DOMTokenList: an ordered set of tokens.\<close>

definition token_add :: "js_string \<Rightarrow> js_string list \<Rightarrow> js_string list" where
  "token_add c cs = (if c \<in> set cs then cs else cs @ [c])"

definition token_toggle :: "js_string \<Rightarrow> js_string list \<Rightarrow> js_string list" where
  "token_toggle c cs = (if c \<in> set cs then removeAll c cs else cs @ [c])"

section \<open>Theme toggle\<close>

definition theme_click :: "page \<Rightarrow> page" where
  "theme_click p =
     (let p1 = p\<lparr>body_classList := token_toggle (js ''light-theme'') (body_classList p)\<rparr>;
          isLight = (js ''light-theme'' \<in> set (body_classList p1))
      in p1\<lparr>localStorage :=
              (localStorage p1)(js ''theme'' \<mapsto> (if isLight then js ''light'' else js ''dark''))\<rparr>)"

text \<open>
  The binder applies the class first and registers the listener last; the result is the
  error thrown, if any, with the page as it is left.
\<close>

definition initThemeToggle :: "'n env \<Rightarrow> page \<Rightarrow> js_error option \<times> page" where
  "initThemeToggle env p =
     (let toggleBtn = getElementById p (js ''theme-toggle'');
          savedTheme = localStorage p (js ''theme'');
          prefersLight = prefers_light env;
          p1 = (if savedTheme = Some (js ''light'') \<or>
                   ((savedTheme = None \<or> savedTheme = Some []) \<and> prefersLight)
                then p\<lparr>body_classList := token_add (js ''light-theme'') (body_classList p)\<rparr>
                else p)
      in case toggleBtn of
           None \<Rightarrow>
             (Some (JsError TypeError (null_read_message (engine env) (js ''addEventListener''))), p1)
         | Some n \<Rightarrow> (None, addEventListener p1 n Click ThemeClick))"

section \<open>Auto-submit\<close>

definition autoSubmitInputs :: "js_string list" where
  "autoSubmitInputs = [js ''gallery-width'', js ''gallery-height'', js ''model-name'']"

definition auto_submit_change :: "'n env \<Rightarrow> event \<Rightarrow> page \<Rightarrow> js_error option \<times> page" where
  "auto_submit_change env e p =
     (case form (heap p (target e)) of
        None \<Rightarrow> (Some (JsError TypeError (null_read_message (engine env) (js ''submit''))), p)
      | Some f \<Rightarrow> (None, emit p [FormSubmit f]))"

definition style_change :: "page \<Rightarrow> page" where
  "style_change p =
     (case getElementById p (js ''append-style-button'') of
        Some appendBtn \<Rightarrow> emit p [ElemClick appendBtn]
      | None \<Rightarrow> p)"

definition bind_auto_submit :: "js_string \<Rightarrow> page \<Rightarrow> page" where
  "bind_auto_submit i p =
     (case getElementById p i of
        Some element \<Rightarrow> addEventListener p element Change AutoSubmitChange
      | None \<Rightarrow> p)"

definition initAutoSubmit :: "page \<Rightarrow> page" where
  "initAutoSubmit p =
     (let p1 = fold bind_auto_submit autoSubmitInputs p
      in case getElementById p1 (js ''style-name'') of
           Some styleInput \<Rightarrow> addEventListener p1 styleInput Change StyleChange
         | None \<Rightarrow> p1)"

section \<open>Loading state\<close>

definition loading_submit :: "event \<Rightarrow> page \<Rightarrow> page" where
  "loading_submit e p =
     (case submitter e of
        None \<Rightarrow> p
      | Some s \<Rightarrow>
          if el_value (heap p s) = js ''run'' then
            (let originalWidth = offsetWidth (heap p s)
             in update_node p s (\<lambda>b. b\<lparr>
                  style_width := js (decimal originalWidth) @ js ''px'',
                  innerHTML := js ''<span>Generating...</span> <span class=\"spinner\"></span>'',
                  classList := token_add (js ''loading'') (classList b)\<rparr>))
          else p)"

definition initLoadingStates :: "page \<Rightarrow> page" where
  "initLoadingStates p =
     (case getElementById p (js ''main-form'') of
        None \<Rightarrow> p
      | Some mainForm \<Rightarrow> addEventListener p mainForm Submit LoadingSubmit)"

section \<open>Confirmations\<close>

definition confirm_message :: "element \<Rightarrow> js_string" where
  "confirm_message btn =
     (case data_confirm btn of
        None \<Rightarrow> js ''Are you sure you want to proceed?''
      | Some m \<Rightarrow> if m \<noteq> [] then m else js ''Are you sure you want to proceed?'')"

definition confirm_click :: "'n env \<Rightarrow> node \<Rightarrow> event \<Rightarrow> page \<Rightarrow> event \<times> page" where
  "confirm_click env btn e p =
     (let msg = confirm_message (heap p btn);
          p1 = emit p [ConfirmPrompt msg]
      in if \<not> confirm_answer env msg then (e\<lparr>defaultPrevented := True\<rparr>, p1) else (e, p1))"

definition initConfirmations :: "page \<Rightarrow> page" where
  "initConfirmations p =
     fold (\<lambda>btn q. addEventListener q btn Click (ConfirmClick btn))
       (querySelectorAll_button_danger p) p"

section \<open>Image upload\<close>

definition upload_click :: "node \<Rightarrow> page \<Rightarrow> page" where
  "upload_click fileInput p = emit p [ElemClick fileInput]"

text \<open>
  The body of the \<open>try\<close> block after the request has been issued: \<open>Inl\<close> is the error
  thrown (a rejected \<open>fetch\<close>, a rejected \<open>json()\<close>, a property read from \<open>null\<close>, a
  value that cannot be converted to a string, or the \<open>Error\<close> the script throws itself),
  \<open>Inr\<close> the page with the textarea written. The textarea is read through its getter.
\<close>

definition upload_try :: "'n env \<Rightarrow> node \<Rightarrow> page \<Rightarrow> js_error + page" where
  "upload_try env urlsTextarea p =
     (case fetch_result env of
        FetchRejected err \<Rightarrow> Inl err
      | FetchResponse ok body \<Rightarrow>
          if \<not> ok then
            (case body of
               JsonRejected err \<Rightarrow> Inl err
             | JsonParsed errorData \<Rightarrow>
                 (case get_prop (engine env) errorData (js ''error'') of
                    Inl err \<Rightarrow> Inl err
                  | Inr v \<Rightarrow>
                      if truthy (engine env) v then
                        (case to_string (engine env) v of
                           Inl err \<Rightarrow> Inl err
                         | Inr m \<Rightarrow> Inl (JsError PlainError m))
                      else Inl (JsError PlainError (js ''Upload failed''))))
          else
            (case body of
               JsonRejected err \<Rightarrow> Inl err
             | JsonParsed data \<Rightarrow>
                 (case get_prop (engine env) data (js ''url'') of
                    Inl err \<Rightarrow> Inl err
                  | Inr url \<Rightarrow>
                      (let currentVal = trim (textarea_value (heap p urlsTextarea))
                       in if currentVal \<noteq> [] then
                            (case to_string (engine env) url of
                               Inl err \<Rightarrow> Inl err
                             | Inr s \<Rightarrow>
                                 Inr (update_node p urlsTextarea
                                   (\<lambda>t. t\<lparr>el_value := currentVal @ [0x0A] @ s\<rparr>)))
                          else
                            (case dom_string (engine env) url of
                               Inl err \<Rightarrow> Inl err
                             | Inr s \<Rightarrow>
                                 Inr (update_node p urlsTextarea
                                   (\<lambda>t. t\<lparr>el_value := s\<rparr>)))))))"

definition upload_catch :: "js_error \<Rightarrow> page \<Rightarrow> page" where
  "upload_catch err p =
     emit p [ConsoleError (js ''Upload error:'') err,
             AlertBox (js ''Failed to upload image: '' @ message err)]"

definition upload_finally :: "js_string \<Rightarrow> node \<Rightarrow> node \<Rightarrow> page \<Rightarrow> page" where
  "upload_finally originalText uploadBtn fileInput p =
     (let p1 = update_node p uploadBtn (\<lambda>b. b\<lparr>textContent := originalText, disabled := False\<rparr>)
      in update_node p1 fileInput (\<lambda>i. i\<lparr>el_value := [], files := Some []\<rparr>))"

text \<open>
  The change listener of the file input, run from the event to the end of its \<open>finally\<close>
  block; nothing else touches the page while the request is pending.
\<close>

definition upload_change :: "'n env \<Rightarrow> node \<Rightarrow> node \<Rightarrow> node \<Rightarrow> page \<Rightarrow> page" where
  "upload_change env uploadBtn fileInput urlsTextarea p =
     (case files (heap p fileInput) of
        None \<Rightarrow> p
      | Some [] \<Rightarrow> p
      | Some (file # rest) \<Rightarrow>
          (let formData = [(js ''file'', file)];
               originalText = textContent (heap p uploadBtn);
               p1 = update_node p uploadBtn
                      (\<lambda>b. b\<lparr>textContent := js ''Uploading...'', disabled := True\<rparr>);
               p2 = emit p1 [FetchCall (js ''/api/upload'') (js ''POST'') formData];
               p3 = (case upload_try env urlsTextarea p2 of
                       Inr q \<Rightarrow> q
                     | Inl err \<Rightarrow> upload_catch err p2)
           in upload_finally originalText uploadBtn fileInput p3))"

definition initImageUpload :: "page \<Rightarrow> page" where
  "initImageUpload p =
     (case getElementById p (js ''upload-image-btn'') of
        None \<Rightarrow> p
      | Some uploadBtn \<Rightarrow>
          (case getElementById p (js ''local-image-upload'') of
             None \<Rightarrow> p
           | Some fileInput \<Rightarrow>
               (case getElementById p (js ''image-urls'') of
                  None \<Rightarrow> p
                | Some urlsTextarea \<Rightarrow>
                    addEventListener
                      (addEventListener p uploadBtn Click (UploadClick fileInput))
                      fileInput Change (UploadChange uploadBtn fileInput urlsTextarea))))"

section \<open>Startup and event dispatch\<close>

text \<open>
  The \<open>DOMContentLoaded\<close> listener calls the binders in order; an error thrown by one of
  them ends the listener, so the binders after it do not run.
\<close>

definition on_DOMContentLoaded :: "'n env \<Rightarrow> page \<Rightarrow> js_error option \<times> page" where
  "on_DOMContentLoaded env p =
     (let p1 = initAutoSubmit p;
          p2 = initLoadingStates p1;
          p3 = initConfirmations p2
      in case initThemeToggle env p3 of
           (Some err, p4) \<Rightarrow> (Some err, p4)
         | (None, p4) \<Rightarrow> (None, initImageUpload p4))"

fun run_handler :: "'n env \<Rightarrow> handler \<Rightarrow> event \<Rightarrow> page \<Rightarrow> event \<times> page" where
  "run_handler env AutoSubmitChange e p =
     (case auto_submit_change env e p of
        (None, q) \<Rightarrow> (e, q)
      | (Some err, q) \<Rightarrow> (e, emit q [Uncaught err]))"
| "run_handler env StyleChange e p = (e, style_change p)"
| "run_handler env LoadingSubmit e p = (e, loading_submit e p)"
| "run_handler env (ConfirmClick btn) e p = confirm_click env btn e p"
| "run_handler env ThemeClick e p = (e, theme_click p)"
| "run_handler env (UploadClick fileInput) e p = (e, upload_click fileInput p)"
| "run_handler env (UploadChange uploadBtn fileInput urlsTextarea) e p =
     (e, upload_change env uploadBtn fileInput urlsTextarea p)"

fun run_listeners :: "'n env \<Rightarrow> handler list \<Rightarrow> event \<Rightarrow> page \<Rightarrow> event \<times> page" where
  "run_listeners env [] e p = (e, p)"
| "run_listeners env (h # hs) e p =
     (case run_handler env h e p of (e', q) \<Rightarrow> run_listeners env hs e' q)"

text \<open>
  The listeners registered on a node for an event type, in registration order, and the
  dispatch of an event at its target (listeners on ancestors are not part of the model).
\<close>

definition listeners_for :: "page \<Rightarrow> node \<Rightarrow> event_type \<Rightarrow> handler list" where
  "listeners_for p n ty =
     map (\<lambda>l. snd (snd l)) (filter (\<lambda>l. fst l = n \<and> fst (snd l) = ty) (listeners p))"

definition dispatchEvent :: "'n env \<Rightarrow> event_type \<Rightarrow> event \<Rightarrow> page \<Rightarrow> event \<times> page" where
  "dispatchEvent env ty e p = run_listeners env (listeners_for p (target e) ty) e p"

section \<open>A sample document\<close>

text \<open>
  A page with every element the script looks for, used to run the handlers on concrete
  inputs: the main form (0) with the gallery-width field (1), the style selector (2), the
  append button (3) and the run button (4); a danger button (5); the theme toggle (6);
  the upload button (7), the file input (8) with one file chosen, and the textarea (9).
\<close>

definition blank :: element where
  "blank = \<lparr>el_id = None, tag = js ''div'', classList = [], data_confirm = None,
     form = None, el_value = [], innerHTML = [], textContent = [], offsetWidth = 0,
     style_width = [], disabled = False, files = None\<rparr>"

definition sample_heap :: "node \<Rightarrow> element" where
  "sample_heap =
     (\<lambda>n. blank)
     (0 := blank\<lparr>el_id := Some (js ''main-form''), tag := js ''form''\<rparr>,
      1 := blank\<lparr>el_id := Some (js ''gallery-width''), tag := js ''select'', form := Some 0,
             el_value := js ''4''\<rparr>,
      2 := blank\<lparr>el_id := Some (js ''style-name''), tag := js ''select'', form := Some 0\<rparr>,
      3 := blank\<lparr>el_id := Some (js ''append-style-button''), tag := js ''button'',
             form := Some 0, el_value := js ''append''\<rparr>,
      4 := blank\<lparr>tag := js ''button'', form := Some 0, el_value := js ''run'',
             innerHTML := js ''Run'', textContent := js ''Run'', offsetWidth := 120\<rparr>,
      5 := blank\<lparr>tag := js ''button'', classList := [js ''danger''],
             data_confirm := Some (js ''Delete everything?''), form := Some 0,
             el_value := js ''delete''\<rparr>,
      6 := blank\<lparr>el_id := Some (js ''theme-toggle''), tag := js ''button''\<rparr>,
      7 := blank\<lparr>el_id := Some (js ''upload-image-btn''), tag := js ''button'',
             innerHTML := js ''Upload'', textContent := js ''Upload''\<rparr>,
      8 := blank\<lparr>el_id := Some (js ''local-image-upload''), tag := js ''input'',
             el_value := js ''y.png'', files := Some [File (js ''y.png'')]\<rparr>,
      9 := blank\<lparr>el_id := Some (js ''image-urls''), tag := js ''textarea''\<rparr>)"

definition sample_page :: page where
  "sample_page = \<lparr>tree = [0, 1, 2, 3, 4, 5, 6, 7, 8, 9], heap = sample_heap,
     body_classList = [], localStorage = Map.empty, listeners = [], trace = []\<rparr>"

text \<open>The sample page with the given text in the textarea.\<close>

definition page_with_urls :: "js_string \<Rightarrow> page" where
  "page_with_urls s = update_node sample_page 9 (\<lambda>t. t\<lparr>el_value := s\<rparr>)"

text \<open>The sample page served without the theme toggle.\<close>

definition page_without_toggle :: page where
  "page_without_toggle = sample_page\<lparr>tree := [0, 1, 2, 3, 4, 5, 7, 8, 9]\<rparr>"

text \<open>The sample page with the two other auto-submit fields added (nodes 10 and 11).\<close>

definition page_with_all_fields :: page where
  "page_with_all_fields = sample_page\<lparr>tree := [0, 1, 10, 11, 2, 3, 4, 5, 6, 7, 8, 9],
     heap := sample_heap
       (10 := blank\<lparr>el_id := Some (js ''gallery-height''), tag := js ''select'', form := Some 0,
              el_value := js ''3''\<rparr>,
        11 := blank\<lparr>el_id := Some (js ''model-name''), tag := js ''select'',
              form := Some 0\<rparr>)\<rparr>"

text \<open>
  An engine whose numbers are the unsigned 32-bit integers, which print in plain decimal
  notation, with the messages V8 gives, and an environment around it.
\<close>

definition sample_engine :: "32 word engine" where
  "sample_engine = \<lparr>number_to_string = (\<lambda>n. js (decimal (unat n))),
     number_truthy = (\<lambda>n. n \<noteq> 0),
     null_read_message =
       (\<lambda>k. js ''Cannot read properties of null (reading '' @ [0x27] @ k @ [0x27] @ js '')''),
     to_primitive_message = js ''Cannot convert object to primitive value''\<rparr>"

definition sample_env :: "bool \<Rightarrow> bool \<Rightarrow> 32 word fetch_outcome \<Rightarrow> 32 word env" where
  "sample_env light accepts r = \<lparr>engine = sample_engine, prefers_light = light,
     confirm_answer = (\<lambda>m. accepts), fetch_result = r\<rparr>"

text \<open>
  Ways the upload request can end: the server accepts the file and names its URL; the
  server refuses it with an error object; the server refuses it with a body that is not
  JSON, so that \<open>json()\<close> rejects with the parser's SyntaxError.
\<close>

definition upload_accepted :: "32 word fetch_outcome" where
  "upload_accepted =
     FetchResponse True (JsonParsed (JObj [(js ''url'', JStr (js ''https://x/y.png''))]))"

definition upload_refused :: "32 word fetch_outcome" where
  "upload_refused =
     FetchResponse False (JsonParsed (JObj [(js ''error'', JStr (js ''too large''))]))"

text \<open>An accepted upload whose url holds a carriage return.\<close>

definition upload_accepted_cr :: "32 word fetch_outcome" where
  "upload_accepted_cr =
     FetchResponse True (JsonParsed (JObj [(js ''url'', JStr (js ''x'' @ [0x0D] @ js ''y''))]))"

definition upload_refused_unparseable :: "32 word fetch_outcome" where
  "upload_refused_unparseable =
     FetchResponse False (JsonRejected (JsError SyntaxError (js ''Unexpected end of JSON input'')))"

section \<open>Strings: basic facts\<close>

lemma unit_of_char_inj: "unit_of_char c = unit_of_char d \<longleftrightarrow> c = d"
proof
  assume h: "unit_of_char c = unit_of_char d"
  have b: "(of_char x :: nat) mod 65536 = of_char x" for x :: char
    by (rule mod_less) (use nat_of_char_less_256 [of x] in linarith)
  from h have "unat (of_nat (of_char c) :: 16 word) = unat (of_nat (of_char d) :: 16 word)"
    by (simp add: unit_of_char_def)
  then have "(of_char c :: nat) = of_char d"
    by (simp add: unat_of_nat b)
  then show "c = d" by simp
qed simp

lemma js_eq_iff [simp]: "js a = js b \<longleftrightarrow> a = b"
  unfolding js_def by (simp add: inj_map_eq_map inj_on_def unit_of_char_inj)

lemma js_Nil [simp]: "js [] = []"
  by (simp add: js_def)

lemma js_eq_Nil [simp]: "js a = [] \<longleftrightarrow> a = []" "[] = js a \<longleftrightarrow> a = []"
  by (auto simp add: js_def)

lemma strip_end_decomp: "xs = rev (dropWhile P (rev xs)) @ rev (takeWhile P (rev xs))"
proof -
  have "rev (takeWhile P (rev xs) @ dropWhile P (rev xs)) = xs" by simp
  then show ?thesis by (simp only: rev_append)
qed

lemma strip_end_nonempty: "rev (dropWhile P (rev xs)) \<noteq> [] \<Longrightarrow> xs \<noteq> []"
  by auto

text \<open>\<open>trim\<close> removes a run of whitespace from each end and nothing else.\<close>

lemma trim_decomp:
  "\<exists>pre post. s = pre @ trim s @ post \<and> list_all is_whitespace pre \<and> list_all is_whitespace post"
proof -
  let ?r = "dropWhile is_whitespace s"
  have 1: "s = takeWhile is_whitespace s @ ?r" by simp
  have 2: "?r = trim s @ rev (takeWhile is_whitespace (rev ?r))"
    unfolding trim_def by (rule strip_end_decomp)
  have 3: "list_all is_whitespace (takeWhile is_whitespace s)"
    by (simp add: list_all_iff) (meson set_takeWhileD)
  have 4: "list_all is_whitespace (rev (takeWhile is_whitespace (rev ?r)))"
    by (simp add: list_all_iff) (meson set_takeWhileD)
  from 1 2 have "s = takeWhile is_whitespace s @ trim s @ rev (takeWhile is_whitespace (rev ?r))"
    by metis
  with 3 4 show ?thesis by blast
qed

text \<open>What \<open>trim\<close> leaves neither starts nor ends with whitespace.\<close>

lemma trim_ends:
  assumes "trim s \<noteq> []"
  shows "\<not> is_whitespace (hd (trim s)) \<and> \<not> is_whitespace (last (trim s))"
proof -
  let ?r = "dropWhile is_whitespace s"
  let ?d = "dropWhile is_whitespace (rev ?r)"
  from assms have d: "?d \<noteq> []" by (simp add: trim_def)
  then have "\<not> is_whitespace (hd ?d)" by (metis hd_dropWhile)
  moreover have "last (trim s) = hd ?d" using d by (simp add: trim_def last_rev)
  ultimately have l: "\<not> is_whitespace (last (trim s))" by simp
  have r: "?r \<noteq> []" using assms unfolding trim_def by (rule strip_end_nonempty)
  then have nw: "\<not> is_whitespace (hd ?r)" by (metis hd_dropWhile)
  have "?r = trim s @ rev (takeWhile is_whitespace (rev ?r))"
    unfolding trim_def by (rule strip_end_decomp)
  with assms have "hd ?r = hd (trim s)" by (metis hd_append2)
  with nw l show ?thesis by simp
qed

lemma set_trim: "set (trim s) \<subseteq> set s"
  by (auto simp: trim_def dest!: set_dropWhileD)

text \<open>Newline normalisation leaves no CR, and leaves text without CR alone.\<close>

lemma normalize_newlines_Cons:
  "c \<noteq> 0x0D \<Longrightarrow> normalize_newlines (c # cs) = c # normalize_newlines cs"
  by (cases cs) auto

lemma normalize_newlines_append:
  "0x0D \<notin> set a \<Longrightarrow> normalize_newlines (a @ b) = a @ normalize_newlines b"
  by (induction a) (auto simp: normalize_newlines_Cons)

lemma normalize_newlines_id: "0x0D \<notin> set s \<Longrightarrow> normalize_newlines s = s"
  using normalize_newlines_append [of s "[]"] by simp

lemma normalize_newlines_no_cr: "0x0D \<notin> set (normalize_newlines s)"
  by (induction s rule: normalize_newlines.induct) auto

lemma starts_with_refl: "starts_with s s"
  by (induction s) auto

lemma js_includes_self: "js_includes s s"
  by (cases s) (auto simp: starts_with_refl)

lemma js_includes_append: "js_includes (xs @ ys) ys"
  by (induction xs) (auto simp: js_includes_self)

lemma js_includes_Nil [simp]: "js_includes s []"
  by (cases s) auto

section \<open>The document: basic facts\<close>

lemma getElementById_id: "getElementById p i = Some n \<Longrightarrow> el_id (heap p n) = Some i"
  by (auto simp: getElementById_def find_Some_iff)

text \<open>Different ids name different nodes.\<close>

lemma getElementById_neq:
  "getElementById p i = Some n \<Longrightarrow> getElementById p j = Some m \<Longrightarrow> i \<noteq> j \<Longrightarrow> n \<noteq> m"
  by (auto dest!: getElementById_id)

section \<open>Image upload: what one run of the change listener does\<close>

lemma upload_finally_button:
  "textContent (heap (upload_finally txt b f q) b) = txt \<and>
   \<not> disabled (heap (upload_finally txt b f q) b)"
  by (simp add: upload_finally_def update_node_def Let_def)

lemma upload_finally_input:
  "files (heap (upload_finally txt b f q) f) = Some [] \<and>
   el_value (heap (upload_finally txt b f q) f) = []"
  by (simp add: upload_finally_def update_node_def Let_def)

lemma upload_finally_other:
  "t \<noteq> f \<Longrightarrow> el_value (heap (upload_finally txt b f q) t) = el_value (heap q t)"
  by (simp add: upload_finally_def update_node_def Let_def)

lemma upload_finally_trace: "trace (upload_finally txt b f q) = trace q"
  by (simp add: upload_finally_def update_node_def Let_def)

lemma upload_try_success:
  assumes "fetch_result env = FetchResponse True (JsonParsed (JObj kvs))"
      and "map_of kvs (js ''url'') = Some (JStr url)"
  shows "upload_try env t q =
           Inr (update_node q t (\<lambda>x. x\<lparr>el_value :=
             (if trim (textarea_value (heap q t)) = [] then url
              else trim (textarea_value (heap q t)) @ [0x0A] @ url)\<rparr>))"
  using assms by (simp add: upload_try_def Let_def)

lemma upload_try_failure:
  assumes "fetch_result env = FetchResponse False body"
  shows "\<exists>err. upload_try env t q = Inl err \<and>
     (\<forall>kvs m. body = JsonParsed (JObj kvs) \<and> map_of kvs (js ''error'') = Some (JStr m) \<longrightarrow>
        message err = (if m = [] then js ''Upload failed'' else m)) \<and>
     (\<forall>kvs. body = JsonParsed (JObj kvs) \<and> map_of kvs (js ''error'') = None \<longrightarrow>
        message err = js ''Upload failed'') \<and>
     (\<forall>e. body = JsonRejected e \<longrightarrow> err = e)"
proof (cases body)
  case (JsonRejected e)
  with assms show ?thesis by (simp add: upload_try_def)
next
  case (JsonParsed d)
  show ?thesis
  proof (cases "get_prop (engine env) d (js ''error'')")
    case (Inl e)
    then have "d = JNull" by (cases d) auto
    with assms JsonParsed Inl show ?thesis by (simp add: upload_try_def)
  next
    case (Inr v)
    with assms JsonParsed show ?thesis
      by (cases d) (auto simp: upload_try_def split: sum.splits)
  qed
qed

text \<open>Evaluation of the sample page, for the concrete runs below.\<close>

lemma sample_file_input:
  "getElementById (page_with_urls s) (js ''local-image-upload'') = Some 8"
  by (simp add: getElementById_def page_with_urls_def update_node_def sample_page_def
      sample_heap_def blank_def)

lemma sample_textarea:
  "getElementById (page_with_urls s) (js ''image-urls'') = Some 9"
  by (simp add: getElementById_def page_with_urls_def update_node_def sample_page_def
      sample_heap_def blank_def)

lemma sample_selection: "files (heap (page_with_urls s) 8) = Some [File (js ''y.png'')]"
  by (simp add: page_with_urls_def update_node_def sample_page_def sample_heap_def blank_def)

lemma sample_urls: "el_value (heap (page_with_urls s) 9) = s"
  by (simp add: page_with_urls_def update_node_def sample_page_def sample_heap_def blank_def)

lemma sample_fetch: "fetch_result (sample_env l a r) = r"
  by (simp add: sample_env_def)

lemma sample_engine_of: "engine (sample_env l a r) = sample_engine"
  by (simp add: sample_env_def)

text \<open>
  C1 (as the code has it). After a successful upload whose response object has a string
  field \<open>url\<close>, the textarea's content, as its \<open>value\<close> getter reports it before and after,
  is as follows. The prior content splits as \<open>pre @ core @ post\<close> with \<open>pre\<close> and \<open>post\<close>
  whitespace and \<open>core\<close> neither starting nor ending with whitespace. When \<open>core\<close> is empty
  (the textarea was empty or held only whitespace) the new content is the url; otherwise
  it is \<open>core\<close>, a newline, and the url: the whitespace is removed from both ends of the
  prior content, the leading whitespace \<open>pre\<close> like the trailing one. The url appears as a
  textarea reports text, CR LF and CR as LF, which is the url itself when it holds no CR.
\<close>

theorem upload_success_appends_url:
  assumes f: "getElementById p (js ''local-image-upload'') = Some fileInput"
      and t: "getElementById p (js ''image-urls'') = Some urlsTextarea"
      and sel: "files (heap p fileInput) = Some (file # rest)"
      and ok: "fetch_result env = FetchResponse True (JsonParsed (JObj kvs))"
      and url: "map_of kvs (js ''url'') = Some (JStr url)"
  shows "(\<exists>pre core post.
            textarea_value (heap p urlsTextarea) = pre @ core @ post \<and>
            list_all is_whitespace pre \<and> list_all is_whitespace post \<and>
            (core = [] \<or> (\<not> is_whitespace (hd core) \<and> \<not> is_whitespace (last core))) \<and>
            textarea_value
                (heap (upload_change env uploadBtn fileInput urlsTextarea p) urlsTextarea) =
              (if core = [] then normalize_newlines url
               else core @ [0x0A] @ normalize_newlines url)) \<and>
         (0x0D \<notin> set url \<longrightarrow> normalize_newlines url = url)"
proof -
  let ?old = "textarea_value (heap p urlsTextarea)"
  have ne: "urlsTextarea \<noteq> fileInput"
    using getElementById_neq [OF t f] by simp
  have raw: "el_value (heap (upload_change env uploadBtn fileInput urlsTextarea p) urlsTextarea) =
        (if trim ?old = [] then url else trim ?old @ [0x0A] @ url)"
    using sel ne
    by (simp add: upload_change_def Let_def upload_try_success [OF ok url] upload_finally_other
        update_node_def emit_def textarea_value_def)
  have "0x0D \<notin> set ?old"
    unfolding textarea_value_def by (rule normalize_newlines_no_cr)
  with set_trim [of ?old] have "0x0D \<notin> set (trim ?old @ [0x0A])"
    by auto
  then have "normalize_newlines ((trim ?old @ [0x0A]) @ url) =
      (trim ?old @ [0x0A]) @ normalize_newlines url"
    by (rule normalize_newlines_append)
  with raw have new:
    "textarea_value (heap (upload_change env uploadBtn fileInput urlsTextarea p) urlsTextarea) =
        (if trim ?old = [] then normalize_newlines url
         else trim ?old @ [0x0A] @ normalize_newlines url)"
    by (simp add: textarea_value_def)
  obtain pre post where d: "?old = pre @ trim ?old @ post"
      "list_all is_whitespace pre" "list_all is_whitespace post"
    using trim_decomp [of ?old] by blast
  have "trim ?old = [] \<or>
      (\<not> is_whitespace (hd (trim ?old)) \<and> \<not> is_whitespace (last (trim ?old)))"
    using trim_ends [of ?old] by blast
  with d new have "\<exists>pre core post.
            ?old = pre @ core @ post \<and>
            list_all is_whitespace pre \<and> list_all is_whitespace post \<and>
            (core = [] \<or> (\<not> is_whitespace (hd core) \<and> \<not> is_whitespace (last core))) \<and>
            textarea_value
                (heap (upload_change env uploadBtn fileInput urlsTextarea p) urlsTextarea) =
              (if core = [] then normalize_newlines url
               else core @ [0x0A] @ normalize_newlines url)"
    by blast
  then show ?thesis
    by (simp add: normalize_newlines_id)
qed

text \<open>
  C1, two runs on the sample page with the response \<open>{url: "https://x/y.png"}\<close>: with \<open>a\<close>
  in the textarea the content becomes \<open>a\<close>, a newline and the url; with the textarea
  empty it becomes the url.
\<close>

theorem upload_success_appends_url_witness:
  "getElementById (page_with_urls (js ''a'')) (js ''local-image-upload'') = Some 8 \<and>
   getElementById (page_with_urls (js ''a'')) (js ''image-urls'') = Some 9 \<and>
   files (heap (page_with_urls (js ''a'')) 8) = Some [File (js ''y.png'')] \<and>
   (\<exists>pre core post.
      textarea_value (heap (page_with_urls (js ''a'')) 9) = pre @ core @ post \<and>
      list_all is_whitespace pre \<and> list_all is_whitespace post \<and>
      (core = [] \<or> (\<not> is_whitespace (hd core) \<and> \<not> is_whitespace (last core))) \<and>
      textarea_value (heap (upload_change (sample_env False False upload_accepted) 7 8 9
          (page_with_urls (js ''a''))) 9) =
        (if core = [] then normalize_newlines (js ''https://x/y.png'')
         else core @ [0x0A] @ normalize_newlines (js ''https://x/y.png''))) \<and>
   normalize_newlines (js ''https://x/y.png'') = js ''https://x/y.png'' \<and>
   textarea_value (heap (upload_change (sample_env False False upload_accepted) 7 8 9
       (page_with_urls (js ''a''))) 9) = js ''a'' @ [0x0A] @ js ''https://x/y.png'' \<and>
   textarea_value (heap (upload_change (sample_env False False upload_accepted) 7 8 9
       (page_with_urls [])) 9) = js ''https://x/y.png''"
proof -
  have ok: "fetch_result (sample_env False False upload_accepted) =
      FetchResponse True (JsonParsed (JObj [(js ''url'', JStr (js ''https://x/y.png''))]))"
    by (simp add: sample_fetch upload_accepted_def)
  have url: "map_of [(js ''url'', JStr (js ''https://x/y.png'') :: 32 word json)] (js ''url'') =
      Some (JStr (js ''https://x/y.png''))"
    by simp
  have cr: "0x0D \<notin> set (js ''https://x/y.png'')"
    by (simp add: js_def unit_of_char_def)
  note inst = upload_success_appends_url [where uploadBtn = 7,
        OF sample_file_input [of "js ''a''"] sample_textarea sample_selection ok url]
  from inst have ex: "\<exists>pre core post.
      textarea_value (heap (page_with_urls (js ''a'')) 9) = pre @ core @ post \<and>
      list_all is_whitespace pre \<and> list_all is_whitespace post \<and>
      (core = [] \<or> (\<not> is_whitespace (hd core) \<and> \<not> is_whitespace (last core))) \<and>
      textarea_value (heap (upload_change (sample_env False False upload_accepted) 7 8 9
          (page_with_urls (js ''a''))) 9) =
        (if core = [] then normalize_newlines (js ''https://x/y.png'')
         else core @ [0x0A] @ normalize_newlines (js ''https://x/y.png''))"
    by blast
  from inst cr have id: "normalize_newlines (js ''https://x/y.png'') = js ''https://x/y.png''"
    by blast
  have ta: "trim (normalize_newlines (js ''a'')) = js ''a''"
    by (simp add: trim_def js_def unit_of_char_def is_whitespace_def)
  have te: "trim [] = []"
    by (simp add: trim_def)
  have na: "normalize_newlines (js ''a'' @ [0x0A] @ js ''https://x/y.png'') =
      js ''a'' @ [0x0A] @ js ''https://x/y.png''"
    by (rule normalize_newlines_id) (simp add: js_def unit_of_char_def)
  have "el_value (heap (upload_change (sample_env False False upload_accepted) 7 8 9
       (page_with_urls (js ''a''))) 9) = js ''a'' @ [0x0A] @ js ''https://x/y.png''"
    by (simp add: upload_change_def upload_try_def upload_finally_def update_node_def emit_def
        sample_selection sample_urls sample_fetch sample_engine_of upload_accepted_def
        textarea_value_def ta)
  then have ra: "textarea_value (heap (upload_change (sample_env False False upload_accepted)
       7 8 9 (page_with_urls (js ''a''))) 9) = js ''a'' @ [0x0A] @ js ''https://x/y.png''"
    by (simp only: textarea_value_def na)
  have "el_value (heap (upload_change (sample_env False False upload_accepted) 7 8 9
       (page_with_urls [])) 9) = js ''https://x/y.png''"
    by (simp add: upload_change_def upload_try_def upload_finally_def update_node_def emit_def
        sample_selection sample_urls sample_fetch sample_engine_of upload_accepted_def
        textarea_value_def te Let_def)
  then have re: "textarea_value (heap (upload_change (sample_env False False upload_accepted)
       7 8 9 (page_with_urls [])) 9) = js ''https://x/y.png''"
    by (simp only: textarea_value_def id)
  from ex id ra re show ?thesis
    by (simp only: sample_file_input sample_textarea sample_selection simp_thms)
qed

text \<open>
  C1 as stated fails twice. With \<open>" a"\<close> in the textarea the handler leaves
  \<open>"a\nhttps://x/y.png"\<close>, not the prior content with only its trailing whitespace removed,
  a newline and the url (which would be \<open>" a\nhttps://x/y.png"\<close>): the leading space is
  lost. And with an empty textarea and the url \<open>"x\ry"\<close> the textarea's content is
  \<open>"x\ny"\<close>, not exactly the url.
\<close>

theorem upload_success_leading_space_counterexample:
  "textarea_value (heap (upload_change (sample_env False False upload_accepted) 7 8 9
      (page_with_urls (js '' a''))) 9) = js ''a'' @ [0x0A] @ js ''https://x/y.png'' \<and>
   textarea_value (heap (upload_change (sample_env False False upload_accepted) 7 8 9
      (page_with_urls (js '' a''))) 9) \<noteq>
     spec_trim_trailing (js '' a'') @ [0x0A] @ js ''https://x/y.png'' \<and>
   textarea_value (heap (upload_change (sample_env False False upload_accepted_cr) 7 8 9
      (page_with_urls [])) 9) = js ''x'' @ [0x0A] @ js ''y'' \<and>
   textarea_value (heap (upload_change (sample_env False False upload_accepted_cr) 7 8 9
      (page_with_urls [])) 9) \<noteq> js ''x'' @ [0x0D] @ js ''y''"
proof -
  have t: "trim (normalize_newlines (js '' a'')) = js ''a''"
    by (simp add: trim_def js_def unit_of_char_def is_whitespace_def)
  have te: "trim [] = []"
    by (simp add: trim_def)
  have s: "spec_trim_trailing (js '' a'') = js '' a''"
    by (simp add: spec_trim_trailing_def js_def unit_of_char_def is_whitespace_def)
  have n: "normalize_newlines (js ''a'' @ [0x0A] @ js ''https://x/y.png'') =
      js ''a'' @ [0x0A] @ js ''https://x/y.png''"
    by (rule normalize_newlines_id) (simp add: js_def unit_of_char_def)
  have nc: "normalize_newlines (js ''x'' @ [0x0D] @ js ''y'') = js ''x'' @ [0x0A] @ js ''y''"
    by (simp add: js_def unit_of_char_def)
  have "el_value (heap (upload_change (sample_env False False upload_accepted) 7 8 9
      (page_with_urls (js '' a''))) 9) = js ''a'' @ [0x0A] @ js ''https://x/y.png''"
    by (simp add: upload_change_def upload_try_def upload_finally_def update_node_def emit_def
        sample_selection sample_urls sample_fetch sample_engine_of upload_accepted_def
        textarea_value_def t)
  then have r: "textarea_value (heap (upload_change (sample_env False False upload_accepted)
      7 8 9 (page_with_urls (js '' a''))) 9) = js ''a'' @ [0x0A] @ js ''https://x/y.png''"
    by (simp only: textarea_value_def n)
  have "el_value (heap (upload_change (sample_env False False upload_accepted_cr) 7 8 9
      (page_with_urls [])) 9) = js ''x'' @ [0x0D] @ js ''y''"
    by (simp add: upload_change_def upload_try_def upload_finally_def update_node_def emit_def
        sample_selection sample_urls sample_fetch sample_engine_of upload_accepted_cr_def
        textarea_value_def te Let_def)
  then have rc: "textarea_value (heap (upload_change
      (sample_env False False upload_accepted_cr) 7 8 9 (page_with_urls [])) 9) =
      js ''x'' @ [0x0A] @ js ''y''"
    by (simp only: textarea_value_def nc)
  have d1: "js ''a'' @ [0x0A] @ js ''https://x/y.png'' \<noteq>
      spec_trim_trailing (js '' a'') @ [0x0A] @ js ''https://x/y.png''"
    unfolding s by (simp add: js_def unit_of_char_def)
  have d2: "js ''x'' @ [0x0A] @ js ''y'' \<noteq> js ''x'' @ [0x0D] @ js ''y''"
    by (simp add: js_def unit_of_char_def)
  from r rc d1 d2 show ?thesis by simp
qed

text \<open>
  C2 (as the code has it). When the response status indicates failure, the handler shows
  exactly one alert, \<open>Failed to upload image: \<close> followed by the message of the error that
  was thrown, and leaves the textarea as it was. For an error object with a string field
  \<open>error\<close> that message is the field (so the alert contains it), or \<open>Upload failed\<close> when
  the field is the empty string; for an error object without the field it is
  \<open>Upload failed\<close>; for a body that does not parse it is the message of the parser's own
  error, not a generic one.
\<close>

theorem upload_failure_alert:
  assumes f: "getElementById p (js ''local-image-upload'') = Some fileInput"
      and t: "getElementById p (js ''image-urls'') = Some urlsTextarea"
      and sel: "files (heap p fileInput) = Some (file # rest)"
      and fail: "fetch_result env = FetchResponse False body"
  shows "\<exists>err.
     trace (upload_change env uploadBtn fileInput urlsTextarea p) =
       trace p @ [FetchCall (js ''/api/upload'') (js ''POST'') [(js ''file'', file)],
                  ConsoleError (js ''Upload error:'') err,
                  AlertBox (js ''Failed to upload image: '' @ message err)] \<and>
     (\<forall>kvs m. body = JsonParsed (JObj kvs) \<and> map_of kvs (js ''error'') = Some (JStr m) \<longrightarrow>
        message err = (if m = [] then js ''Upload failed'' else m) \<and>
        js_includes (js ''Failed to upload image: '' @ message err) m) \<and>
     (\<forall>kvs. body = JsonParsed (JObj kvs) \<and> map_of kvs (js ''error'') = None \<longrightarrow>
        message err = js ''Upload failed'') \<and>
     (\<forall>e. body = JsonRejected e \<longrightarrow> err = e) \<and>
     el_value (heap (upload_change env uploadBtn fileInput urlsTextarea p) urlsTextarea) =
       el_value (heap p urlsTextarea)"
proof -
  let ?p1 = "update_node p uploadBtn (\<lambda>b. b\<lparr>textContent := js ''Uploading...'', disabled := True\<rparr>)"
  let ?p2 = "emit ?p1 [FetchCall (js ''/api/upload'') (js ''POST'') [(js ''file'', file)]]"
  have ne: "urlsTextarea \<noteq> fileInput"
    using getElementById_neq [OF t f] by simp
  obtain err where e: "upload_try env urlsTextarea ?p2 = Inl err"
    and e1: "\<forall>kvs m. body = JsonParsed (JObj kvs) \<and> map_of kvs (js ''error'') = Some (JStr m) \<longrightarrow>
        message err = (if m = [] then js ''Upload failed'' else m)"
    and e2: "\<forall>kvs. body = JsonParsed (JObj kvs) \<and> map_of kvs (js ''error'') = None \<longrightarrow>
        message err = js ''Upload failed''"
    and e3: "\<forall>e. body = JsonRejected e \<longrightarrow> err = e"
    using upload_try_failure [OF fail, of urlsTextarea ?p2] by blast
  have run: "upload_change env uploadBtn fileInput urlsTextarea p =
      upload_finally (textContent (heap p uploadBtn)) uploadBtn fileInput (upload_catch err ?p2)"
    using sel e by (simp add: upload_change_def Let_def)
  have tr: "trace (upload_change env uploadBtn fileInput urlsTextarea p) =
       trace p @ [FetchCall (js ''/api/upload'') (js ''POST'') [(js ''file'', file)],
                  ConsoleError (js ''Upload error:'') err,
                  AlertBox (js ''Failed to upload image: '' @ message err)]"
    by (simp add: run upload_finally_trace upload_catch_def emit_def update_node_def)
  have tv: "el_value (heap (upload_change env uploadBtn fileInput urlsTextarea p) urlsTextarea) =
       el_value (heap p urlsTextarea)"
    using ne by (simp add: run upload_finally_other upload_catch_def emit_def update_node_def)
  have inc: "\<forall>kvs m. body = JsonParsed (JObj kvs) \<and> map_of kvs (js ''error'') = Some (JStr m) \<longrightarrow>
        message err = (if m = [] then js ''Upload failed'' else m) \<and>
        js_includes (js ''Failed to upload image: '' @ message err) m"
  proof (intro allI impI)
    fix kvs m
    assume h: "body = JsonParsed (JObj kvs) \<and> map_of kvs (js ''error'') = Some (JStr m)"
    with e1 have m: "message err = (if m = [] then js ''Upload failed'' else m)" by blast
    show "message err = (if m = [] then js ''Upload failed'' else m) \<and>
        js_includes (js ''Failed to upload image: '' @ message err) m"
    proof (cases "m = []")
      case True
      with m show ?thesis by simp
    next
      case False
      with m show ?thesis by (simp add: js_includes_append)
    qed
  qed
  from tr inc e2 e3 tv show ?thesis by blast
qed

text \<open>
  C2, a run: the response \<open>{error: "too large"}\<close> with a failure status. The alert names
  the server's message and the textarea keeps its content.
\<close>

theorem upload_failure_alert_witness:
  "getElementById (page_with_urls (js ''a'')) (js ''local-image-upload'') = Some 8 \<and>
   getElementById (page_with_urls (js ''a'')) (js ''image-urls'') = Some 9 \<and>
   files (heap (page_with_urls (js ''a'')) 8) = Some [File (js ''y.png'')] \<and>
   fetch_result (sample_env False False upload_refused) = upload_refused \<and>
   (\<exists>err.
      trace (upload_change (sample_env False False upload_refused) 7 8 9
          (page_with_urls (js ''a''))) =
        [FetchCall (js ''/api/upload'') (js ''POST'') [(js ''file'', File (js ''y.png''))],
         ConsoleError (js ''Upload error:'') err,
         AlertBox (js ''Failed to upload image: '' @ js ''too large'')] \<and>
      message err = js ''too large'') \<and>
   js_includes (js ''Failed to upload image: '' @ js ''too large'') (js ''too large'') \<and>
   el_value (heap (upload_change (sample_env False False upload_refused) 7 8 9
       (page_with_urls (js ''a''))) 9) = js ''a''"
proof -
  have fail: "fetch_result (sample_env False False upload_refused) =
      FetchResponse False (JsonParsed (JObj [(js ''error'', JStr (js ''too large''))]))"
    by (simp add: sample_fetch upload_refused_def)
  have tr0: "trace (page_with_urls (js ''a'')) = []"
    by (simp add: page_with_urls_def update_node_def sample_page_def)
  obtain err where
    tr: "trace (upload_change (sample_env False False upload_refused) 7 8 9
          (page_with_urls (js ''a''))) =
        trace (page_with_urls (js ''a'')) @
        [FetchCall (js ''/api/upload'') (js ''POST'') [(js ''file'', File (js ''y.png''))],
         ConsoleError (js ''Upload error:'') err,
         AlertBox (js ''Failed to upload image: '' @ message err)]"
    and m: "\<forall>kvs m. JsonParsed (JObj [(js ''error'', JStr (js ''too large''))]) =
              (JsonParsed (JObj kvs) :: 32 word json_outcome) \<and>
            map_of kvs (js ''error'') = Some (JStr m) \<longrightarrow>
        message err = (if m = [] then js ''Upload failed'' else m) \<and>
        js_includes (js ''Failed to upload image: '' @ message err) m"
    and tv: "el_value (heap (upload_change (sample_env False False upload_refused) 7 8 9
       (page_with_urls (js ''a''))) 9) = el_value (heap (page_with_urls (js ''a'')) 9)"
    using upload_failure_alert [where uploadBtn = 7,
        OF sample_file_input [of "js ''a''"] sample_textarea sample_selection fail]
    by blast
  have "JsonParsed (JObj [(js ''error'', JStr (js ''too large''))]) =
          (JsonParsed (JObj [(js ''error'', JStr (js ''too large''))]) :: 32 word json_outcome) \<and>
        map_of [(js ''error'', JStr (js ''too large'') :: 32 word json)] (js ''error'') =
          Some (JStr (js ''too large''))"
    by simp
  with m have me:
    "message err = (if js ''too large'' = [] then js ''Upload failed'' else js ''too large'') \<and>
     js_includes (js ''Failed to upload image: '' @ message err) (js ''too large'')"
    by blast
  then have me1: "message err = js ''too large''" by simp
  from me have "js_includes (js ''Failed to upload image: '' @ message err) (js ''too large'')"
    by blast
  then have me2:
    "js_includes (js ''Failed to upload image: '' @ js ''too large'') (js ''too large'')"
    unfolding me1 .
  from tr me1 have tr1: "\<exists>err.
      trace (upload_change (sample_env False False upload_refused) 7 8 9
          (page_with_urls (js ''a''))) =
        [FetchCall (js ''/api/upload'') (js ''POST'') [(js ''file'', File (js ''y.png''))],
         ConsoleError (js ''Upload error:'') err,
         AlertBox (js ''Failed to upload image: '' @ js ''too large'')] \<and>
      message err = js ''too large''"
    by (simp add: tr0)
  from tr1 me2 tv show ?thesis
    by (simp only: sample_file_input sample_textarea sample_selection sample_urls sample_fetch
        simp_thms)
qed

text \<open>
  C2 as stated fails: when the error body is not JSON, \<open>json()\<close> rejects and the alert
  carries the parser's message; the generic message \<open>Upload failed\<close> does not occur in it.
\<close>

theorem upload_failure_unparseable_counterexample:
  "trace (upload_change (sample_env False False upload_refused_unparseable) 7 8 9
      (page_with_urls [])) =
     [FetchCall (js ''/api/upload'') (js ''POST'') [(js ''file'', File (js ''y.png''))],
      ConsoleError (js ''Upload error:'')
        (JsError SyntaxError (js ''Unexpected end of JSON input'')),
      AlertBox (js ''Failed to upload image: Unexpected end of JSON input'')] \<and>
   \<not> js_includes (js ''Failed to upload image: Unexpected end of JSON input'')
       (js ''Upload failed'')"
proof -
  have a: "js ''Failed to upload image: '' @ js ''Unexpected end of JSON input'' =
      js ''Failed to upload image: Unexpected end of JSON input''"
    by (simp add: js_def)
  have tr0: "trace (page_with_urls []) = []"
    by (simp add: page_with_urls_def update_node_def sample_page_def)
  have r: "trace (upload_change (sample_env False False upload_refused_unparseable) 7 8 9
      (page_with_urls [])) =
     [FetchCall (js ''/api/upload'') (js ''POST'') [(js ''file'', File (js ''y.png''))],
      ConsoleError (js ''Upload error:'')
        (JsError SyntaxError (js ''Unexpected end of JSON input'')),
      AlertBox (js ''Failed to upload image: Unexpected end of JSON input'')]"
    by (simp add: upload_change_def upload_try_def upload_finally_def upload_catch_def
        update_node_def emit_def sample_selection sample_fetch upload_refused_unparseable_def
        tr0 a)
  have n: "\<not> js_includes (js ''Failed to upload image: Unexpected end of JSON input'')
       (js ''Upload failed'')"
    by (simp add: js_def unit_of_char_def)
  from r n show ?thesis by simp
qed

text \<open>
  C3. Whenever the change listener runs with a non-empty selection, however the request
  ends (accepted, refused, rejected, or an error thrown while the response is read), the
  upload button ends with the text it had before, enabled, and the file input ends with
  no file selected and an empty value.
\<close>

theorem upload_always_resets:
  assumes sel: "files (heap p fileInput) = Some (file # rest)"
  shows "textContent (heap (upload_change env uploadBtn fileInput urlsTextarea p) uploadBtn) =
           textContent (heap p uploadBtn) \<and>
         \<not> disabled (heap (upload_change env uploadBtn fileInput urlsTextarea p) uploadBtn) \<and>
         files (heap (upload_change env uploadBtn fileInput urlsTextarea p) fileInput) = Some [] \<and>
         el_value (heap (upload_change env uploadBtn fileInput urlsTextarea p) fileInput) = []"
  using sel
  by (simp add: upload_change_def Let_def upload_finally_button upload_finally_input)

text \<open>C3, a run: the request is rejected by the network.\<close>

theorem upload_always_resets_witness:
  "files (heap (page_with_urls []) 8) = Some [File (js ''y.png'')] \<and>
   textContent (heap (upload_change
       (sample_env False False (FetchRejected (JsError TypeError (js ''Failed to fetch''))))
       7 8 9 (page_with_urls [])) 7) = js ''Upload'' \<and>
   \<not> disabled (heap (upload_change
       (sample_env False False (FetchRejected (JsError TypeError (js ''Failed to fetch''))))
       7 8 9 (page_with_urls [])) 7) \<and>
   files (heap (upload_change
       (sample_env False False (FetchRejected (JsError TypeError (js ''Failed to fetch''))))
       7 8 9 (page_with_urls [])) 8) = Some [] \<and>
   el_value (heap (upload_change
       (sample_env False False (FetchRejected (JsError TypeError (js ''Failed to fetch''))))
       7 8 9 (page_with_urls [])) 8) = []"
proof -
  have b: "textContent (heap (page_with_urls []) 7) = js ''Upload''"
    by (simp add: page_with_urls_def update_node_def sample_page_def sample_heap_def blank_def)
  show ?thesis
    using upload_always_resets [where uploadBtn = 7 and urlsTextarea = 9 and
        env = "sample_env False False (FetchRejected (JsError TypeError (js ''Failed to fetch'')))",
        OF sample_selection [of "[]"]]
    by (simp add: sample_selection b)
qed

text \<open>
  C10. When the change event fires with no file selected (the list is empty, or the input
  has none), the listener returns at once: the page is unchanged, so no request is
  issued and neither the upload button nor the textarea is touched.
\<close>

theorem upload_empty_selection_noop:
  assumes "files (heap p fileInput) = None \<or> files (heap p fileInput) = Some []"
  shows "run_handler env (UploadChange uploadBtn fileInput urlsTextarea) e p = (e, p)"
  using assms by (auto simp: upload_change_def)

text \<open>C10, a run: the sample page after its file input has been cleared.\<close>

theorem upload_empty_selection_noop_witness:
  "files (heap (update_node sample_page 8 (\<lambda>i. i\<lparr>files := Some []\<rparr>)) 8) = Some [] \<and>
   run_handler (sample_env False False upload_accepted) (UploadChange 7 8 9)
       \<lparr>target = 8, submitter = None, defaultPrevented = False\<rparr>
       (update_node sample_page 8 (\<lambda>i. i\<lparr>files := Some []\<rparr>)) =
     (\<lparr>target = 8, submitter = None, defaultPrevented = False\<rparr>,
      update_node sample_page 8 (\<lambda>i. i\<lparr>files := Some []\<rparr>))"
proof -
  have h: "files (heap (update_node sample_page 8 (\<lambda>i. i\<lparr>files := Some []\<rparr>)) 8) = Some []"
    by (simp add: update_node_def)
  then have "files (heap (update_node sample_page 8 (\<lambda>i. i\<lparr>files := Some []\<rparr>)) 8) = None \<or>
      files (heap (update_node sample_page 8 (\<lambda>i. i\<lparr>files := Some []\<rparr>)) 8) = Some []"
    by simp
  from upload_empty_selection_noop [OF this] h show ?thesis by simp
qed


section \<open>Startup: which listeners end up on which node\<close>

lemma addEventListener_frame [simp]:
  "tree (addEventListener p n ty h) = tree p"
  "heap (addEventListener p n ty h) = heap p"
  "trace (addEventListener p n ty h) = trace p"
  "body_classList (addEventListener p n ty h) = body_classList p"
  "localStorage (addEventListener p n ty h) = localStorage p"
  by (simp_all add: addEventListener_def)

lemma addEventListener_listeners:
  "listeners (addEventListener p n ty h) = listeners p @ [(n, ty, h)]"
  by (simp add: addEventListener_def)

lemma getElementById_frame:
  "tree q = tree p \<Longrightarrow> heap q = heap p \<Longrightarrow> getElementById q i = getElementById p i"
  by (simp add: getElementById_def)

lemma getElementById_addEventListener [simp]:
  "getElementById (addEventListener p n ty h) i = getElementById p i"
  by (rule getElementById_frame) simp_all

lemma querySelectorAll_frame:
  "tree q = tree p \<Longrightarrow> heap q = heap p \<Longrightarrow>
   querySelectorAll_button_danger q = querySelectorAll_button_danger p"
  by (simp add: querySelectorAll_button_danger_def)

lemma listeners_for_add:
  "listeners_for (addEventListener p m ty h) n ty' =
     listeners_for p n ty' @ (if m = n \<and> ty = ty' then [h] else [])"
  by (simp add: listeners_for_def addEventListener_def)

lemma listeners_for_same:
  "listeners q = listeners p \<Longrightarrow> listeners_for q n ty = listeners_for p n ty"
  by (simp add: listeners_for_def)

lemma listeners_for_fresh: "listeners p = [] \<Longrightarrow> listeners_for p n ty = []"
  by (simp add: listeners_for_def)

text \<open>The auto-submit binder.\<close>

lemma bind_auto_submit_frame [simp]:
  "tree (bind_auto_submit i p) = tree p"
  "heap (bind_auto_submit i p) = heap p"
  "trace (bind_auto_submit i p) = trace p"
  "body_classList (bind_auto_submit i p) = body_classList p"
  "localStorage (bind_auto_submit i p) = localStorage p"
  by (simp_all add: bind_auto_submit_def split: option.splits)

lemma getElementById_bind_auto_submit [simp]:
  "getElementById (bind_auto_submit i p) j = getElementById p j"
  by (rule getElementById_frame) simp_all

lemma bind_auto_submit_listeners:
  "listeners_for (bind_auto_submit i p) n ty =
     listeners_for p n ty @
     (if getElementById p i = Some n \<and> ty = Change then [AutoSubmitChange] else [])"
  by (auto simp: bind_auto_submit_def listeners_for_add split: option.splits)

lemma initAutoSubmit_frame [simp]:
  "tree (initAutoSubmit p) = tree p"
  "heap (initAutoSubmit p) = heap p"
  "trace (initAutoSubmit p) = trace p"
  "body_classList (initAutoSubmit p) = body_classList p"
  "localStorage (initAutoSubmit p) = localStorage p"
  by (simp_all add: initAutoSubmit_def autoSubmitInputs_def Let_def split: option.splits)

lemma initAutoSubmit_listeners:
  "listeners_for (initAutoSubmit p) n Change =
     listeners_for p n Change @
     concat (map (\<lambda>i. if getElementById p i = Some n then [AutoSubmitChange] else [])
       autoSubmitInputs) @
     (if getElementById p (js ''style-name'') = Some n then [StyleChange] else [])"
  by (simp add: initAutoSubmit_def autoSubmitInputs_def Let_def listeners_for_add
      bind_auto_submit_listeners split: option.splits)

lemma initAutoSubmit_other:
  "ty \<noteq> Change \<Longrightarrow> listeners_for (initAutoSubmit p) n ty = listeners_for p n ty"
  by (simp add: initAutoSubmit_def autoSubmitInputs_def Let_def listeners_for_add
      bind_auto_submit_listeners split: option.splits)

lemma auto_submit_exactly_one:
  assumes i: "i \<in> set autoSubmitInputs" and n: "getElementById p i = Some n"
  shows "listeners_for (initAutoSubmit p) n Change = listeners_for p n Change @ [AutoSubmitChange]"
proof -
  have key: "getElementById p j = Some n \<longleftrightarrow> j = i" for j
    using n getElementById_id [of p j n] getElementById_id [of p i n] by auto
  from i show ?thesis
    by (auto simp: initAutoSubmit_listeners key autoSubmitInputs_def)
qed

lemma style_exactly_one:
  assumes n: "getElementById p (js ''style-name'') = Some n"
  shows "listeners_for (initAutoSubmit p) n Change = listeners_for p n Change @ [StyleChange]"
proof -
  have key: "getElementById p j = Some n \<longleftrightarrow> j = js ''style-name''" for j
    using n getElementById_id [of p j n] getElementById_id [of p "js ''style-name''" n] by auto
  show ?thesis
    by (simp add: initAutoSubmit_listeners key autoSubmitInputs_def)
qed

text \<open>The loading-state binder.\<close>

lemma initLoadingStates_frame [simp]:
  "tree (initLoadingStates p) = tree p"
  "heap (initLoadingStates p) = heap p"
  "trace (initLoadingStates p) = trace p"
  "body_classList (initLoadingStates p) = body_classList p"
  "localStorage (initLoadingStates p) = localStorage p"
  by (simp_all add: initLoadingStates_def split: option.splits)

lemma initLoadingStates_listeners:
  "listeners_for (initLoadingStates p) n ty =
     listeners_for p n ty @
     (if getElementById p (js ''main-form'') = Some n \<and> ty = Submit then [LoadingSubmit] else [])"
  by (auto simp: initLoadingStates_def listeners_for_add split: option.splits)

text \<open>The confirmation binder.\<close>

lemma initConfirmations_listeners:
  "listeners (fold (\<lambda>btn q. addEventListener q btn Click (ConfirmClick btn)) bs p) =
     listeners p @ map (\<lambda>btn. (btn, Click, ConfirmClick btn)) bs"
  by (induction bs arbitrary: p) (auto simp: addEventListener_def)

lemma confirm_fold_frame:
  "tree (fold (\<lambda>btn q. addEventListener q btn Click (ConfirmClick btn)) bs p) = tree p \<and>
   heap (fold (\<lambda>btn q. addEventListener q btn Click (ConfirmClick btn)) bs p) = heap p \<and>
   trace (fold (\<lambda>btn q. addEventListener q btn Click (ConfirmClick btn)) bs p) = trace p \<and>
   body_classList (fold (\<lambda>btn q. addEventListener q btn Click (ConfirmClick btn)) bs p) =
     body_classList p \<and>
   localStorage (fold (\<lambda>btn q. addEventListener q btn Click (ConfirmClick btn)) bs p) =
     localStorage p"
  by (induction bs arbitrary: p) simp_all

lemma initConfirmations_frame [simp]:
  "tree (initConfirmations p) = tree p"
  "heap (initConfirmations p) = heap p"
  "trace (initConfirmations p) = trace p"
  "body_classList (initConfirmations p) = body_classList p"
  "localStorage (initConfirmations p) = localStorage p"
  by (simp_all add: initConfirmations_def confirm_fold_frame)

lemma initConfirmations_other:
  "ty \<noteq> Click \<Longrightarrow> listeners_for (initConfirmations p) n ty = listeners_for p n ty"
  by (simp add: listeners_for_def initConfirmations_def initConfirmations_listeners filter_map
      o_def)

lemma initConfirmations_click:
  "listeners_for (initConfirmations p) n Click =
     listeners_for p n Click @
     map ConfirmClick (filter (\<lambda>btn. btn = n) (querySelectorAll_button_danger p))"
  by (simp add: listeners_for_def initConfirmations_def initConfirmations_listeners filter_map
      o_def)

text \<open>The theme binder.\<close>

lemma initThemeToggle_frame [simp]:
  "tree (snd (initThemeToggle env p)) = tree p"
  "heap (snd (initThemeToggle env p)) = heap p"
  "trace (snd (initThemeToggle env p)) = trace p"
  "localStorage (snd (initThemeToggle env p)) = localStorage p"
  by (simp_all add: initThemeToggle_def Let_def split: option.splits)

lemma initThemeToggle_listeners:
  "listeners_for (snd (initThemeToggle env p)) n ty =
     listeners_for p n ty @
     (if getElementById p (js ''theme-toggle'') = Some n \<and> ty = Click then [ThemeClick] else [])"
  by (auto simp: initThemeToggle_def Let_def listeners_for_def addEventListener_def
      split: option.splits)

lemma initThemeToggle_classes:
  "body_classList (snd (initThemeToggle env p)) =
     (if localStorage p (js ''theme'') = Some (js ''light'') \<or>
         ((localStorage p (js ''theme'') = None \<or> localStorage p (js ''theme'') = Some []) \<and>
            prefers_light env)
      then token_add (js ''light-theme'') (body_classList p)
      else body_classList p)"
  by (cases "getElementById p (js ''theme-toggle'')"; cases "localStorage p (js ''theme'')")
    (simp_all add: initThemeToggle_def Let_def)

lemma initThemeToggle_present:
  "getElementById p (js ''theme-toggle'') = Some n \<Longrightarrow> fst (initThemeToggle env p) = None"
  by (simp add: initThemeToggle_def Let_def)

text \<open>The error thrown by the theme binder when the toggle is missing.\<close>

lemma initThemeToggle_missing:
  "getElementById p (js ''theme-toggle'') = None \<Longrightarrow>
   fst (initThemeToggle env p) =
     Some (JsError TypeError (null_read_message (engine env) (js ''addEventListener'')))"
  by (simp add: initThemeToggle_def Let_def)

text \<open>The upload binder.\<close>

lemma initImageUpload_frame [simp]:
  "tree (initImageUpload p) = tree p"
  "heap (initImageUpload p) = heap p"
  "trace (initImageUpload p) = trace p"
  "body_classList (initImageUpload p) = body_classList p"
  "localStorage (initImageUpload p) = localStorage p"
  by (simp_all add: initImageUpload_def split: option.splits)

lemma initImageUpload_listeners:
  "getElementById p (js ''local-image-upload'') \<noteq> Some n \<Longrightarrow>
   listeners_for (initImageUpload p) n Change = listeners_for p n Change"
  by (auto simp: initImageUpload_def listeners_for_add split: option.splits)

lemma initImageUpload_click:
  "getElementById p (js ''upload-image-btn'') \<noteq> Some n \<Longrightarrow>
   listeners_for (initImageUpload p) n Click = listeners_for p n Click"
  by (auto simp: initImageUpload_def listeners_for_add split: option.splits)

lemma initImageUpload_submit:
  "listeners_for (initImageUpload p) n Submit = listeners_for p n Submit"
  by (auto simp: initImageUpload_def listeners_for_add split: option.splits)

text \<open>The whole startup.\<close>

lemma on_DOMContentLoaded_cases:
  "on_DOMContentLoaded env p =
     (let p3 = initConfirmations (initLoadingStates (initAutoSubmit p))
      in if fst (initThemeToggle env p3) = None
         then (None, initImageUpload (snd (initThemeToggle env p3)))
         else (fst (initThemeToggle env p3), snd (initThemeToggle env p3)))"
  by (cases "initThemeToggle env (initConfirmations (initLoadingStates (initAutoSubmit p)))")
    (auto simp: on_DOMContentLoaded_def Let_def split: option.splits)

lemma startup_frame:
  "tree (snd (on_DOMContentLoaded env p)) = tree p \<and>
   heap (snd (on_DOMContentLoaded env p)) = heap p \<and>
   trace (snd (on_DOMContentLoaded env p)) = trace p \<and>
   localStorage (snd (on_DOMContentLoaded env p)) = localStorage p"
  by (simp add: on_DOMContentLoaded_cases Let_def)

lemma startup_ids: "getElementById (snd (on_DOMContentLoaded env p)) i = getElementById p i"
  by (rule getElementById_frame) (simp_all add: startup_frame)

lemma binders_ids:
  "getElementById (initAutoSubmit p) i = getElementById p i"
  "getElementById (initLoadingStates (initAutoSubmit p)) i = getElementById p i"
  "getElementById (initConfirmations (initLoadingStates (initAutoSubmit p))) i =
     getElementById p i"
  "getElementById (snd (initThemeToggle env
       (initConfirmations (initLoadingStates (initAutoSubmit p))))) i = getElementById p i"
  by (rule getElementById_frame, simp, simp)+

lemma startup_change_listeners:
  assumes "getElementById p (js ''local-image-upload'') \<noteq> Some n"
  shows "listeners_for (snd (on_DOMContentLoaded env p)) n Change =
           listeners_for (initAutoSubmit p) n Change"
  using assms
  by (simp add: on_DOMContentLoaded_cases Let_def initImageUpload_listeners binders_ids
      initThemeToggle_listeners initConfirmations_other initLoadingStates_listeners)

lemma startup_submit_listeners:
  assumes "listeners p = []" and "getElementById p (js ''main-form'') = Some m"
  shows "listeners_for (snd (on_DOMContentLoaded env p)) m Submit = [LoadingSubmit]"
  using assms
  by (simp add: on_DOMContentLoaded_cases Let_def initImageUpload_submit binders_ids
      initThemeToggle_listeners initConfirmations_other initLoadingStates_listeners
      initAutoSubmit_other listeners_for_fresh)

lemma startup_toggle_listeners:
  assumes fresh: "listeners p = []" and t: "getElementById p (js ''theme-toggle'') = Some t"
  shows "fst (on_DOMContentLoaded env p) = None \<and>
         (\<exists>bs. listeners_for (snd (on_DOMContentLoaded env p)) t Click =
            map ConfirmClick bs @ [ThemeClick])"
proof -
  let ?p3 = "initConfirmations (initLoadingStates (initAutoSubmit p))"
  have g3: "getElementById ?p3 (js ''theme-toggle'') = Some t"
    using t by (simp add: binders_ids)
  then have ok: "fst (initThemeToggle env ?p3) = None"
    by (rule initThemeToggle_present)
  have "getElementById p (js ''upload-image-btn'') \<noteq> Some t"
    using getElementById_neq [OF t, of "js ''upload-image-btn''" t] by auto
  then have up: "getElementById (snd (initThemeToggle env ?p3)) (js ''upload-image-btn'') \<noteq> Some t"
    by (simp add: binders_ids)
  have l: "listeners_for (snd (on_DOMContentLoaded env p)) t Click =
      map ConfirmClick (filter (\<lambda>btn. btn = t)
        (querySelectorAll_button_danger (initLoadingStates (initAutoSubmit p)))) @ [ThemeClick]"
    using ok g3 fresh
    by (simp add: on_DOMContentLoaded_cases Let_def initImageUpload_click [OF up]
        initThemeToggle_listeners initConfirmations_click initLoadingStates_listeners
        initAutoSubmit_other listeners_for_fresh)
  have f: "fst (on_DOMContentLoaded env p) = None"
    using ok by (simp add: on_DOMContentLoaded_cases Let_def)
  from f l show ?thesis by blast
qed

lemma startup_body_classList:
  "body_classList (snd (on_DOMContentLoaded env p)) =
     (if localStorage p (js ''theme'') = Some (js ''light'') \<or>
         ((localStorage p (js ''theme'') = None \<or> localStorage p (js ''theme'') = Some []) \<and>
            prefers_light env)
      then token_add (js ''light-theme'') (body_classList p)
      else body_classList p)"
proof -
  let ?p3 = "initConfirmations (initLoadingStates (initAutoSubmit p))"
  have a: "body_classList (snd (on_DOMContentLoaded env p)) =
      body_classList (snd (initThemeToggle env ?p3))"
    by (simp add: on_DOMContentLoaded_cases Let_def)
  have c: "localStorage ?p3 = localStorage p" "body_classList ?p3 = body_classList p"
    by simp_all
  show ?thesis
    unfolding a initThemeToggle_classes [of env ?p3] c ..
qed

section \<open>Loading state\<close>

text \<open>
  C4. After startup of a page that had no listeners, a submit event at the main form runs
  one listener. It changes the submitter exactly when there is one and its value is
  \<open>run\<close>: it then fixes the width at the measured pixel width, replaces the content by
  the label \<open>Generating...\<close> with the spinner, and adds the class \<open>loading\<close>, touching
  nothing else. With any other submitter, or none, the page is left as it is. In every
  case the event is returned as it came: the listener never prevents the submission.
\<close>

theorem loading_state_only_for_run:
  assumes fresh: "listeners p = []"
      and form: "getElementById p (js ''main-form'') = Some mainForm"
      and tgt: "target e = mainForm"
  shows "fst (dispatchEvent env Submit e (snd (on_DOMContentLoaded env p))) = e \<and>
   (\<forall>s. submitter e = Some s \<and> el_value (heap p s) = js ''run'' \<longrightarrow>
      style_width (heap (snd (dispatchEvent env Submit e (snd (on_DOMContentLoaded env p)))) s) =
        js (decimal (offsetWidth (heap p s))) @ js ''px'' \<and>
      innerHTML (heap (snd (dispatchEvent env Submit e (snd (on_DOMContentLoaded env p)))) s) =
        js ''<span>Generating...</span> <span class=\"spinner\"></span>'' \<and>
      classList (heap (snd (dispatchEvent env Submit e (snd (on_DOMContentLoaded env p)))) s) =
        (if js ''loading'' \<in> set (classList (heap p s)) then classList (heap p s)
         else classList (heap p s) @ [js ''loading'']) \<and>
      (\<forall>n. n \<noteq> s \<longrightarrow>
         heap (snd (dispatchEvent env Submit e (snd (on_DOMContentLoaded env p)))) n =
           heap p n) \<and>
      trace (snd (dispatchEvent env Submit e (snd (on_DOMContentLoaded env p)))) = trace p) \<and>
   (submitter e = None \<or> (\<exists>s. submitter e = Some s \<and> el_value (heap p s) \<noteq> js ''run'') \<longrightarrow>
      snd (dispatchEvent env Submit e (snd (on_DOMContentLoaded env p))) =
        snd (on_DOMContentLoaded env p))"
proof -
  let ?q = "snd (on_DOMContentLoaded env p)"
  have fr: "heap ?q = heap p" "trace ?q = trace p"
    using startup_frame [of env p] by simp_all
  have run: "dispatchEvent env Submit e ?q = (e, loading_submit e ?q)"
    using tgt by (simp add: dispatchEvent_def startup_submit_listeners [OF fresh form])
  have ev: "fst (dispatchEvent env Submit e ?q) = e"
    by (simp add: run)
  have changed: "style_width (heap (snd (dispatchEvent env Submit e ?q)) s) =
        js (decimal (offsetWidth (heap p s))) @ js ''px'' \<and>
      innerHTML (heap (snd (dispatchEvent env Submit e ?q)) s) =
        js ''<span>Generating...</span> <span class=\"spinner\"></span>'' \<and>
      classList (heap (snd (dispatchEvent env Submit e ?q)) s) =
        (if js ''loading'' \<in> set (classList (heap p s)) then classList (heap p s)
         else classList (heap p s) @ [js ''loading'']) \<and>
      (\<forall>n. n \<noteq> s \<longrightarrow> heap (snd (dispatchEvent env Submit e ?q)) n = heap p n) \<and>
      trace (snd (dispatchEvent env Submit e ?q)) = trace p"
    if h: "submitter e = Some s \<and> el_value (heap p s) = js ''run''" for s
  proof -
    from h have "loading_submit e ?q =
        update_node ?q s (\<lambda>b. b\<lparr>
          style_width := js (decimal (offsetWidth (heap ?q s))) @ js ''px'',
          innerHTML := js ''<span>Generating...</span> <span class=\"spinner\"></span>'',
          classList := token_add (js ''loading'') (classList b)\<rparr>)"
      by (simp add: loading_submit_def fr)
    then show ?thesis
      by (simp add: run update_node_def fr token_add_def)
  qed
  have same: "snd (dispatchEvent env Submit e ?q) = ?q"
    if h: "submitter e = None \<or> (\<exists>s. submitter e = Some s \<and> el_value (heap p s) \<noteq> js ''run'')"
  proof -
    from h have "loading_submit e ?q = ?q"
      by (cases "submitter e") (simp_all add: loading_submit_def fr)
    then show ?thesis by (simp add: run)
  qed
  from ev changed same show ?thesis by blast
qed

text \<open>
  C4, two submissions on the sample page after startup: by the run button (node 4, 120
  pixels wide), and by the append button (node 3).
\<close>

theorem loading_state_only_for_run_witness:
  "listeners sample_page = [] \<and>
   getElementById sample_page (js ''main-form'') = Some 0 \<and>
   style_width (heap (snd (dispatchEvent (sample_env False False upload_accepted) Submit
       \<lparr>target = 0, submitter = Some 4, defaultPrevented = False\<rparr>
       (snd (on_DOMContentLoaded (sample_env False False upload_accepted) sample_page)))) 4) =
     js ''120px'' \<and>
   innerHTML (heap (snd (dispatchEvent (sample_env False False upload_accepted) Submit
       \<lparr>target = 0, submitter = Some 4, defaultPrevented = False\<rparr>
       (snd (on_DOMContentLoaded (sample_env False False upload_accepted) sample_page)))) 4) =
     js ''<span>Generating...</span> <span class=\"spinner\"></span>'' \<and>
   classList (heap (snd (dispatchEvent (sample_env False False upload_accepted) Submit
       \<lparr>target = 0, submitter = Some 4, defaultPrevented = False\<rparr>
       (snd (on_DOMContentLoaded (sample_env False False upload_accepted) sample_page)))) 4) =
     [js ''loading''] \<and>
   fst (dispatchEvent (sample_env False False upload_accepted) Submit
       \<lparr>target = 0, submitter = Some 4, defaultPrevented = False\<rparr>
       (snd (on_DOMContentLoaded (sample_env False False upload_accepted) sample_page))) =
     \<lparr>target = 0, submitter = Some 4, defaultPrevented = False\<rparr> \<and>
   snd (dispatchEvent (sample_env False False upload_accepted) Submit
       \<lparr>target = 0, submitter = Some 3, defaultPrevented = False\<rparr>
       (snd (on_DOMContentLoaded (sample_env False False upload_accepted) sample_page))) =
     snd (on_DOMContentLoaded (sample_env False False upload_accepted) sample_page)"
proof -
  let ?env = "sample_env False False upload_accepted"
  let ?q = "snd (on_DOMContentLoaded ?env sample_page)"
  let ?run = "\<lparr>target = 0, submitter = Some 4, defaultPrevented = False\<rparr>"
  let ?other = "\<lparr>target = 0, submitter = Some 3, defaultPrevented = False\<rparr>"
  have fresh: "listeners sample_page = []"
    by (simp add: sample_page_def)
  have form: "getElementById sample_page (js ''main-form'') = Some 0"
    by (simp add: getElementById_def sample_page_def sample_heap_def blank_def)
  have t1: "target ?run = 0" and t2: "target ?other = 0"
    by simp_all
  have v4: "submitter ?run = Some 4 \<and> el_value (heap sample_page 4) = js ''run''"
    by (simp add: sample_page_def sample_heap_def blank_def)
  have w4: "offsetWidth (heap sample_page 4) = 120"
    by (simp add: sample_page_def sample_heap_def blank_def)
  have c4: "classList (heap sample_page 4) = []"
    by (simp add: sample_page_def sample_heap_def blank_def)
  have d: "js (decimal 120) @ js ''px'' = js ''120px''"
    by (simp add: decimal.simps js_def)
  have v3: "submitter ?other = None \<or>
      (\<exists>s. submitter ?other = Some s \<and> el_value (heap sample_page s) \<noteq> js ''run'')"
    by (simp add: sample_page_def sample_heap_def blank_def)
  note run = loading_state_only_for_run [OF fresh form t1, of ?env]
  note other = loading_state_only_for_run [OF fresh form t2, of ?env]
  from run v4 have
    "style_width (heap (snd (dispatchEvent ?env Submit ?run ?q)) 4) =
        js (decimal (offsetWidth (heap sample_page 4))) @ js ''px'' \<and>
     innerHTML (heap (snd (dispatchEvent ?env Submit ?run ?q)) 4) =
        js ''<span>Generating...</span> <span class=\"spinner\"></span>'' \<and>
     classList (heap (snd (dispatchEvent ?env Submit ?run ?q)) 4) =
        (if js ''loading'' \<in> set (classList (heap sample_page 4))
         then classList (heap sample_page 4)
         else classList (heap sample_page 4) @ [js ''loading''])"
    by blast
  then have a: "style_width (heap (snd (dispatchEvent ?env Submit ?run ?q)) 4) = js ''120px'' \<and>
     innerHTML (heap (snd (dispatchEvent ?env Submit ?run ?q)) 4) =
        js ''<span>Generating...</span> <span class=\"spinner\"></span>'' \<and>
     classList (heap (snd (dispatchEvent ?env Submit ?run ?q)) 4) = [js ''loading'']"
    by (simp add: w4 c4 d)
  from run have b: "fst (dispatchEvent ?env Submit ?run ?q) = ?run"
    by blast
  from other v3 have c: "snd (dispatchEvent ?env Submit ?other ?q) = ?q"
    by blast
  from fresh form a b c show ?thesis by blast
qed

section \<open>Confirmations\<close>

text \<open>
  C5 (as the code has it). Every \<open>button.danger\<close> of the document gets the click listener.
  A click shows one confirmation prompt; its message is the \<open>data-confirm\<close> attribute
  when that is present and not empty, and the generic message when the attribute is
  absent or empty. The listener prevents the default action when the user declines and
  leaves the event alone when the user accepts: after a click that was not prevented
  before, the default action is prevented exactly when the user declined.
\<close>

theorem confirm_click_prompt:
  "(\<exists>msg.
      trace (snd (run_handler env (ConfirmClick btn) e p)) = trace p @ [ConfirmPrompt msg] \<and>
      (\<forall>m. data_confirm (heap p btn) = Some m \<and> m \<noteq> [] \<longrightarrow> msg = m) \<and>
      (data_confirm (heap p btn) = None \<or> data_confirm (heap p btn) = Some [] \<longrightarrow>
         msg = js ''Are you sure you want to proceed?'') \<and>
      (confirm_answer env msg \<longrightarrow> fst (run_handler env (ConfirmClick btn) e p) = e) \<and>
      (defaultPrevented (fst (run_handler env (ConfirmClick btn) e p)) \<longleftrightarrow>
         defaultPrevented e \<or> \<not> confirm_answer env msg)) \<and>
   heap (snd (run_handler env (ConfirmClick btn) e p)) = heap p \<and>
   (btn \<in> set (querySelectorAll_button_danger p) \<longrightarrow>
      (btn, Click, ConfirmClick btn) \<in> set (listeners (initConfirmations p)))"
proof -
  have run: "\<exists>msg.
      trace (snd (run_handler env (ConfirmClick btn) e p)) = trace p @ [ConfirmPrompt msg] \<and>
      (\<forall>m. data_confirm (heap p btn) = Some m \<and> m \<noteq> [] \<longrightarrow> msg = m) \<and>
      (data_confirm (heap p btn) = None \<or> data_confirm (heap p btn) = Some [] \<longrightarrow>
         msg = js ''Are you sure you want to proceed?'') \<and>
      (confirm_answer env msg \<longrightarrow> fst (run_handler env (ConfirmClick btn) e p) = e) \<and>
      (defaultPrevented (fst (run_handler env (ConfirmClick btn) e p)) \<longleftrightarrow>
         defaultPrevented e \<or> \<not> confirm_answer env msg)"
    by (rule exI [of _ "confirm_message (heap p btn)"])
      (auto simp: confirm_click_def confirm_message_def emit_def Let_def split: option.splits)
  have frame: "heap (snd (run_handler env (ConfirmClick btn) e p)) = heap p"
    by (simp add: confirm_click_def emit_def Let_def)
  have bound: "btn \<in> set (querySelectorAll_button_danger p) \<longrightarrow>
      (btn, Click, ConfirmClick btn) \<in> set (listeners (initConfirmations p))"
    by (auto simp: initConfirmations_def initConfirmations_listeners)
  from run frame bound show ?thesis by blast
qed

text \<open>
  C5, two clicks on the danger button of the sample page, which carries
  \<open>data-confirm="Delete everything?"\<close>: one declined, one accepted.
\<close>

theorem confirm_click_prompt_witness:
  "trace (snd (run_handler (sample_env False False upload_accepted) (ConfirmClick 5)
       \<lparr>target = 5, submitter = None, defaultPrevented = False\<rparr> sample_page)) =
     [ConfirmPrompt (js ''Delete everything?'')] \<and>
   defaultPrevented (fst (run_handler (sample_env False False upload_accepted) (ConfirmClick 5)
       \<lparr>target = 5, submitter = None, defaultPrevented = False\<rparr> sample_page)) \<and>
   \<not> defaultPrevented (fst (run_handler (sample_env False True upload_accepted) (ConfirmClick 5)
       \<lparr>target = 5, submitter = None, defaultPrevented = False\<rparr> sample_page)) \<and>
   (5, Click, ConfirmClick 5) \<in> set (listeners (initConfirmations sample_page))"
proof -
  let ?no = "sample_env False False upload_accepted"
  let ?yes = "sample_env False True upload_accepted"
  let ?e = "\<lparr>target = 5, submitter = None, defaultPrevented = False\<rparr>"
  have attr: "data_confirm (heap sample_page 5) = Some (js ''Delete everything?'') \<and>
      js ''Delete everything?'' \<noteq> []"
    by (simp add: sample_page_def sample_heap_def blank_def)
  have tr0: "trace sample_page = []"
    by (simp add: sample_page_def)
  have sel: "5 \<in> set (querySelectorAll_button_danger sample_page)"
    by (simp add: querySelectorAll_button_danger_def sample_page_def sample_heap_def blank_def)
  have ans: "\<not> confirm_answer ?no m" "confirm_answer ?yes m" for m
    by (simp_all add: sample_env_def)
  obtain msg where
    t: "trace (snd (run_handler ?no (ConfirmClick 5) ?e sample_page)) =
          trace sample_page @ [ConfirmPrompt msg]"
    and m: "\<forall>m. data_confirm (heap sample_page 5) = Some m \<and> m \<noteq> [] \<longrightarrow> msg = m"
    and d: "defaultPrevented (fst (run_handler ?no (ConfirmClick 5) ?e sample_page)) \<longleftrightarrow>
         defaultPrevented ?e \<or> \<not> confirm_answer ?no msg"
    using confirm_click_prompt [of ?no 5 ?e sample_page] by blast
  from m attr have "msg = js ''Delete everything?''" by blast
  with t tr0 have a: "trace (snd (run_handler ?no (ConfirmClick 5) ?e sample_page)) =
      [ConfirmPrompt (js ''Delete everything?'')]"
    by simp
  from d ans have b: "defaultPrevented (fst (run_handler ?no (ConfirmClick 5) ?e sample_page))"
    by simp
  obtain msg' where
    "defaultPrevented (fst (run_handler ?yes (ConfirmClick 5) ?e sample_page)) \<longleftrightarrow>
         defaultPrevented ?e \<or> \<not> confirm_answer ?yes msg'"
    using confirm_click_prompt [of ?yes 5 ?e sample_page] by blast
  with ans have c: "\<not> defaultPrevented (fst (run_handler ?yes (ConfirmClick 5) ?e sample_page))"
    by simp
  from confirm_click_prompt [of ?no 5 ?e sample_page] sel
  have l: "(5, Click, ConfirmClick 5) \<in> set (listeners (initConfirmations sample_page))"
    by blast
  from a b c l show ?thesis by blast
qed

text \<open>
  C5 as stated fails: a danger button whose \<open>data-confirm\<close> attribute is present but empty
  gets the generic message, not its attribute.
\<close>

theorem confirm_empty_attribute_counterexample:
  "data_confirm (heap (update_node sample_page 5 (\<lambda>b. b\<lparr>data_confirm := Some []\<rparr>)) 5) = Some [] \<and>
   trace (snd (run_handler (sample_env False True upload_accepted) (ConfirmClick 5)
       \<lparr>target = 5, submitter = None, defaultPrevented = False\<rparr>
       (update_node sample_page 5 (\<lambda>b. b\<lparr>data_confirm := Some []\<rparr>)))) =
     [ConfirmPrompt (js ''Are you sure you want to proceed?'')] \<and>
   js ''Are you sure you want to proceed?'' \<noteq> []"
  by (simp add: confirm_click_def confirm_message_def emit_def update_node_def sample_page_def
      sample_env_def Let_def)

section \<open>Auto-submit\<close>

text \<open>
  C6. After startup of a page that had no listeners, a change event at the gallery-width,
  the gallery-height or the model-name field, when the field exists in the document and
  has an owning form, runs one listener, whose only effect is one \<open>submit()\<close> of that form.
  A change event at the style-name field has as its only effect one \<open>click()\<close> on the
  append-style-button when that button exists (and no effect when it does not); the
  listener itself submits no form.
\<close>

theorem auto_submit_dispatch:
  assumes fresh: "listeners p = []"
      and tgt: "target e = n"
  shows "(\<forall>i f. (i = js ''gallery-width'' \<or> i = js ''gallery-height'' \<or> i = js ''model-name'') \<and>
            getElementById p i = Some n \<and> form (heap p n) = Some f \<longrightarrow>
            dispatchEvent env Change e (snd (on_DOMContentLoaded env p)) =
              (e, emit (snd (on_DOMContentLoaded env p)) [FormSubmit f])) \<and>
         (\<forall>a. getElementById p (js ''style-name'') = Some n \<and>
            getElementById p (js ''append-style-button'') = Some a \<longrightarrow>
            dispatchEvent env Change e (snd (on_DOMContentLoaded env p)) =
              (e, emit (snd (on_DOMContentLoaded env p)) [ElemClick a])) \<and>
         (getElementById p (js ''style-name'') = Some n \<and>
            getElementById p (js ''append-style-button'') = None \<longrightarrow>
            dispatchEvent env Change e (snd (on_DOMContentLoaded env p)) =
              (e, snd (on_DOMContentLoaded env p)))"
proof -
  let ?q = "snd (on_DOMContentLoaded env p)"
  have none: "listeners_for p n Change = []"
    using fresh by (rule listeners_for_fresh)
  have fr: "heap ?q = heap p"
    using startup_frame [of env p] by simp
  have auto_field: "dispatchEvent env Change e ?q = (e, emit ?q [FormSubmit f])"
    if i: "i = js ''gallery-width'' \<or> i = js ''gallery-height'' \<or> i = js ''model-name''"
      and g: "getElementById p i = Some n" and f: "form (heap p n) = Some f" for i f
  proof -
    from i have mem: "i \<in> set autoSubmitInputs"
      by (auto simp: autoSubmitInputs_def)
    from i have "i \<noteq> js ''local-image-upload''"
      by auto
    then have "getElementById p (js ''local-image-upload'') \<noteq> Some n"
      using g getElementById_neq [of p i n "js ''local-image-upload''" n] by auto
    then have "listeners_for ?q n Change = [AutoSubmitChange]"
      by (simp add: startup_change_listeners auto_submit_exactly_one [OF mem g] none)
    then show ?thesis
      using f tgt by (simp add: dispatchEvent_def auto_submit_change_def fr)
  qed
  have style_listeners: "listeners_for ?q n Change = [StyleChange]"
    if g: "getElementById p (js ''style-name'') = Some n"
  proof -
    have "getElementById p (js ''local-image-upload'') \<noteq> Some n"
      using g getElementById_neq [of p "js ''style-name''" n "js ''local-image-upload''" n]
      by auto
    then show ?thesis
      by (simp add: startup_change_listeners style_exactly_one [OF g] none)
  qed
  have style_click: "dispatchEvent env Change e ?q = (e, emit ?q [ElemClick a])"
    if g: "getElementById p (js ''style-name'') = Some n"
      and a: "getElementById p (js ''append-style-button'') = Some a" for a
    using style_listeners [OF g] a tgt
    by (simp add: dispatchEvent_def style_change_def startup_ids)
  have style_skip: "dispatchEvent env Change e ?q = (e, ?q)"
    if g: "getElementById p (js ''style-name'') = Some n"
      and a: "getElementById p (js ''append-style-button'') = None"
    using style_listeners [OF g] a tgt
    by (simp add: dispatchEvent_def style_change_def startup_ids)
  from auto_field style_click style_skip show ?thesis by blast
qed

text \<open>Evaluation of the sample page with all fields.\<close>

lemma all_fields_ids:
  "getElementById page_with_all_fields (js ''gallery-width'') = Some 1"
  "getElementById page_with_all_fields (js ''gallery-height'') = Some 10"
  "getElementById page_with_all_fields (js ''model-name'') = Some 11"
  "getElementById page_with_all_fields (js ''style-name'') = Some 2"
  "getElementById page_with_all_fields (js ''append-style-button'') = Some 3"
  by (simp_all add: getElementById_def page_with_all_fields_def sample_page_def sample_heap_def
      blank_def)

lemma all_fields_forms:
  "form (heap page_with_all_fields 1) = Some 0"
  "form (heap page_with_all_fields 10) = Some 0"
  "form (heap page_with_all_fields 11) = Some 0"
  by (simp_all add: page_with_all_fields_def sample_page_def sample_heap_def blank_def)

text \<open>
  C6, four events after startup of the sample page with all fields: a change of the
  gallery-width field (node 1), of the gallery-height field (node 10) and of the model-name
  field (node 11), each owned by the form (node 0), and a change of the style selector
  (node 2).
\<close>

theorem auto_submit_dispatch_witness:
  "listeners page_with_all_fields = [] \<and>
   getElementById page_with_all_fields (js ''gallery-width'') = Some 1 \<and>
   getElementById page_with_all_fields (js ''gallery-height'') = Some 10 \<and>
   getElementById page_with_all_fields (js ''model-name'') = Some 11 \<and>
   trace (snd (dispatchEvent (sample_env False False upload_accepted) Change
       \<lparr>target = 1, submitter = None, defaultPrevented = False\<rparr>
       (snd (on_DOMContentLoaded (sample_env False False upload_accepted)
          page_with_all_fields)))) = [FormSubmit 0] \<and>
   trace (snd (dispatchEvent (sample_env False False upload_accepted) Change
       \<lparr>target = 10, submitter = None, defaultPrevented = False\<rparr>
       (snd (on_DOMContentLoaded (sample_env False False upload_accepted)
          page_with_all_fields)))) = [FormSubmit 0] \<and>
   trace (snd (dispatchEvent (sample_env False False upload_accepted) Change
       \<lparr>target = 11, submitter = None, defaultPrevented = False\<rparr>
       (snd (on_DOMContentLoaded (sample_env False False upload_accepted)
          page_with_all_fields)))) = [FormSubmit 0] \<and>
   trace (snd (dispatchEvent (sample_env False False upload_accepted) Change
       \<lparr>target = 2, submitter = None, defaultPrevented = False\<rparr>
       (snd (on_DOMContentLoaded (sample_env False False upload_accepted)
          page_with_all_fields)))) = [ElemClick 3]"
proof -
  let ?env = "sample_env False False upload_accepted"
  let ?q = "snd (on_DOMContentLoaded ?env page_with_all_fields)"
  let ?e1 = "\<lparr>target = 1, submitter = None, defaultPrevented = False\<rparr>"
  let ?e10 = "\<lparr>target = 10, submitter = None, defaultPrevented = False\<rparr>"
  let ?e11 = "\<lparr>target = 11, submitter = None, defaultPrevented = False\<rparr>"
  let ?e2 = "\<lparr>target = 2, submitter = None, defaultPrevented = False\<rparr>"
  have fresh: "listeners page_with_all_fields = []"
    by (simp add: page_with_all_fields_def sample_page_def)
  have t0: "trace ?q = []"
    using startup_frame [of ?env page_with_all_fields]
    by (simp add: page_with_all_fields_def sample_page_def)
  have t1: "target ?e1 = 1" and t10: "target ?e10 = 10" and t11: "target ?e11 = 11"
    and t2: "target ?e2 = 2"
    by simp_all
  from auto_submit_dispatch [OF fresh t1, of ?env] all_fields_ids(1) all_fields_forms(1)
  have "dispatchEvent ?env Change ?e1 ?q = (?e1, emit ?q [FormSubmit 0])"
    by blast
  then have a: "trace (snd (dispatchEvent ?env Change ?e1 ?q)) = [FormSubmit 0]"
    by (simp add: emit_def t0)
  from auto_submit_dispatch [OF fresh t10, of ?env] all_fields_ids(2) all_fields_forms(2)
  have "dispatchEvent ?env Change ?e10 ?q = (?e10, emit ?q [FormSubmit 0])"
    by blast
  then have b: "trace (snd (dispatchEvent ?env Change ?e10 ?q)) = [FormSubmit 0]"
    by (simp add: emit_def t0)
  from auto_submit_dispatch [OF fresh t11, of ?env] all_fields_ids(3) all_fields_forms(3)
  have "dispatchEvent ?env Change ?e11 ?q = (?e11, emit ?q [FormSubmit 0])"
    by blast
  then have c: "trace (snd (dispatchEvent ?env Change ?e11 ?q)) = [FormSubmit 0]"
    by (simp add: emit_def t0)
  from auto_submit_dispatch [OF fresh t2, of ?env] all_fields_ids(4) all_fields_ids(5)
  have "dispatchEvent ?env Change ?e2 ?q = (?e2, emit ?q [ElemClick 3])"
    by blast
  then have d: "trace (snd (dispatchEvent ?env Change ?e2 ?q)) = [ElemClick 3]"
    by (simp add: emit_def t0)
  from fresh all_fields_ids(1) all_fields_ids(2) all_fields_ids(3) a b c d show ?thesis
    by blast
qed

section \<open>Startup with elements missing\<close>

lemma startup_without_toggle:
  assumes "getElementById p (js ''theme-toggle'') = None"
  shows "fst (on_DOMContentLoaded env p) =
           Some (JsError TypeError (null_read_message (engine env) (js ''addEventListener''))) \<and>
         listeners (snd (on_DOMContentLoaded env p)) =
           listeners (initConfirmations (initLoadingStates (initAutoSubmit p)))"
proof -
  let ?p3 = "initConfirmations (initLoadingStates (initAutoSubmit p))"
  have "getElementById ?p3 (js ''theme-toggle'') = getElementById p (js ''theme-toggle'')"
    by (rule getElementById_frame) simp_all
  with assms have g: "getElementById ?p3 (js ''theme-toggle'') = None" by simp
  then have e: "fst (initThemeToggle env ?p3) =
      Some (JsError TypeError (null_read_message (engine env) (js ''addEventListener'')))"
    by (rule initThemeToggle_missing)
  have l: "listeners (snd (initThemeToggle env ?p3)) = listeners ?p3"
    using g by (simp add: initThemeToggle_def Let_def)
  from e l show ?thesis
    by (simp add: on_DOMContentLoaded_cases Let_def)
qed

text \<open>
  C9 on the sample page served without the theme toggle. The three binders that run
  first skip what is missing, but \<open>initThemeToggle\<close> calls \<open>addEventListener\<close> on \<open>null\<close>:
  startup ends with a TypeError, and the upload binder, which comes after it, never runs,
  so neither the upload button nor the file input has a listener although both exist.
  With the toggle present, startup raises nothing and the file input has its listener.
\<close>

theorem startup_without_toggle_throws:
  "getElementById page_without_toggle (js ''theme-toggle'') = None \<and>
   getElementById page_without_toggle (js ''local-image-upload'') = Some 8 \<and>
   fst (on_DOMContentLoaded (sample_env False False upload_accepted) page_without_toggle) =
     Some (JsError TypeError
       (js ''Cannot read properties of null (reading '' @ [0x27] @ js ''addEventListener'' @
        [0x27] @ js '')'')) \<and>
   listeners_for (snd (on_DOMContentLoaded (sample_env False False upload_accepted)
       page_without_toggle)) 8 Change = [] \<and>
   listeners_for (snd (on_DOMContentLoaded (sample_env False False upload_accepted)
       page_without_toggle)) 7 Click = [] \<and>
   fst (on_DOMContentLoaded (sample_env False False upload_accepted) sample_page) = None \<and>
   listeners_for (snd (on_DOMContentLoaded (sample_env False False upload_accepted)
       sample_page)) 8 Change = [UploadChange 7 8 9]"
proof -
  let ?env = "sample_env False False upload_accepted"
  have ids: "getElementById page_without_toggle (js ''theme-toggle'') = None"
    "getElementById page_without_toggle (js ''local-image-upload'') = Some 8"
    "getElementById page_without_toggle (js ''gallery-width'') = Some 1"
    "getElementById page_without_toggle (js ''gallery-height'') = None"
    "getElementById page_without_toggle (js ''model-name'') = None"
    "getElementById page_without_toggle (js ''style-name'') = Some 2"
    "getElementById page_without_toggle (js ''main-form'') = Some 0"
    by (simp_all add: getElementById_def page_without_toggle_def sample_page_def sample_heap_def
        blank_def)
  have danger: "querySelectorAll_button_danger page_without_toggle = [5]"
    by (simp add: querySelectorAll_button_danger_def page_without_toggle_def sample_page_def
        sample_heap_def blank_def)
  have fresh: "listeners page_without_toggle = []"
    by (simp add: page_without_toggle_def sample_page_def)
  have msg: "null_read_message (engine ?env) k =
      js ''Cannot read properties of null (reading '' @ [0x27] @ k @ [0x27] @ js '')''" for k
    by (simp add: sample_env_def sample_engine_def)
  have l1: "listeners (initAutoSubmit page_without_toggle) =
      [(1, Change, AutoSubmitChange), (2, Change, StyleChange)]"
    by (simp add: initAutoSubmit_def autoSubmitInputs_def bind_auto_submit_def Let_def ids fresh
        addEventListener_listeners)
  have g1: "getElementById (initAutoSubmit page_without_toggle) (js ''main-form'') = Some 0"
    by (simp only: binders_ids ids)
  have l2: "listeners (initLoadingStates (initAutoSubmit page_without_toggle)) =
      [(1, Change, AutoSubmitChange), (2, Change, StyleChange), (0, Submit, LoadingSubmit)]"
    by (simp add: initLoadingStates_def g1 l1 addEventListener_listeners)
  have d2: "querySelectorAll_button_danger (initLoadingStates (initAutoSubmit page_without_toggle)) =
      [5]"
    using danger
      querySelectorAll_frame [of "initLoadingStates (initAutoSubmit page_without_toggle)"
        page_without_toggle]
    by simp
  have l: "listeners (initConfirmations (initLoadingStates (initAutoSubmit page_without_toggle))) =
      [(1, Change, AutoSubmitChange), (2, Change, StyleChange), (0, Submit, LoadingSubmit),
       (5, Click, ConfirmClick 5)]"
    by (simp add: initConfirmations_def d2 l2 addEventListener_listeners)
  from startup_without_toggle [OF ids(1), of ?env]
  have a: "fst (on_DOMContentLoaded ?env page_without_toggle) =
      Some (JsError TypeError
        (js ''Cannot read properties of null (reading '' @ [0x27] @ js ''addEventListener'' @
         [0x27] @ js '')''))"
    and b: "listeners (snd (on_DOMContentLoaded ?env page_without_toggle)) =
      [(1, Change, AutoSubmitChange), (2, Change, StyleChange), (0, Submit, LoadingSubmit),
       (5, Click, ConfirmClick 5)]"
    by (simp_all add: msg l)
  from b have c: "listeners_for (snd (on_DOMContentLoaded ?env page_without_toggle)) 8 Change = []"
    and d: "listeners_for (snd (on_DOMContentLoaded ?env page_without_toggle)) 7 Click = []"
    by (simp_all add: listeners_for_def)
  have sids: "getElementById sample_page (js ''theme-toggle'') = Some 6"
    "getElementById sample_page (js ''upload-image-btn'') = Some 7"
    "getElementById sample_page (js ''local-image-upload'') = Some 8"
    "getElementById sample_page (js ''image-urls'') = Some 9"
    by (simp_all add: getElementById_def sample_page_def sample_heap_def blank_def)
  let ?p3 = "initConfirmations (initLoadingStates (initAutoSubmit sample_page))"
  have g3: "getElementById ?p3 j = getElementById sample_page j" for j
    by (rule getElementById_frame) simp_all
  have th: "fst (initThemeToggle ?env ?p3) = None"
    by (simp add: initThemeToggle_def Let_def g3 sids)
  have g4: "getElementById (snd (initThemeToggle ?env ?p3)) j = getElementById sample_page j" for j
    by (rule getElementById_frame) simp_all
  have none: "listeners_for sample_page 8 Change = []"
    by (simp add: listeners_for_def sample_page_def)
  have fields: "getElementById sample_page (js ''gallery-width'') = Some 1"
    "getElementById sample_page (js ''gallery-height'') = None"
    "getElementById sample_page (js ''model-name'') = None"
    "getElementById sample_page (js ''style-name'') = Some 2"
    by (simp_all add: getElementById_def sample_page_def sample_heap_def blank_def)
  have as: "listeners_for (initAutoSubmit sample_page) 8 Change = []"
    by (simp add: initAutoSubmit_listeners autoSubmitInputs_def none fields)
  have l3: "listeners_for ?p3 8 Change = []"
    by (simp add: initConfirmations_other initLoadingStates_listeners as)
  have l4: "listeners_for (snd (initThemeToggle ?env ?p3)) 8 Change = []"
    by (simp add: initThemeToggle_listeners l3)
  from th have e: "fst (on_DOMContentLoaded ?env sample_page) = None"
    by (simp add: on_DOMContentLoaded_cases Let_def)
  have f: "listeners_for (snd (on_DOMContentLoaded ?env sample_page)) 8 Change =
      [UploadChange 7 8 9]"
    using th
    by (simp add: on_DOMContentLoaded_cases Let_def initImageUpload_def g4 sids listeners_for_add l4)
  from ids(1) ids(2) a c d e f show ?thesis by blast
qed

section \<open>Theme toggle\<close>

lemma token_toggle_member: "c \<in> set (token_toggle c cs) \<longleftrightarrow> c \<notin> set cs"
  by (simp add: token_toggle_def)

lemma token_toggle_twice: "set (token_toggle c (token_toggle c cs)) = set cs"
  by (auto simp: token_toggle_def)

text \<open>
  C7 (as the code has it). At startup the binder adds the class \<open>light-theme\<close> to the body,
  after the classes the body has and only if it is not among them, exactly when the stored
  preference is \<open>light\<close>, or the stored preference is absent or the empty string and the
  operating system reports a light preference. For every other combination it leaves the
  body's class list as it was. So after startup the class is present exactly when that
  condition holds or the body carried the class already. The storage is not written.
\<close>

theorem theme_applied_at_startup:
  "body_classList (snd (on_DOMContentLoaded env p)) =
     (if localStorage p (js ''theme'') = Some (js ''light'') \<or>
         ((localStorage p (js ''theme'') = None \<or> localStorage p (js ''theme'') = Some []) \<and>
            prefers_light env)
      then (if js ''light-theme'' \<in> set (body_classList p) then body_classList p
            else body_classList p @ [js ''light-theme''])
      else body_classList p) \<and>
   (js ''light-theme'' \<in> set (body_classList (snd (on_DOMContentLoaded env p))) \<longleftrightarrow>
      localStorage p (js ''theme'') = Some (js ''light'') \<or>
      ((localStorage p (js ''theme'') = None \<or> localStorage p (js ''theme'') = Some []) \<and>
         prefers_light env) \<or>
      js ''light-theme'' \<in> set (body_classList p)) \<and>
   localStorage (snd (on_DOMContentLoaded env p)) = localStorage p"
proof -
  let ?c = "localStorage p (js ''theme'') = Some (js ''light'') \<or>
      ((localStorage p (js ''theme'') = None \<or> localStorage p (js ''theme'') = Some []) \<and>
         prefers_light env)"
  let ?new = "body_classList (snd (on_DOMContentLoaded env p))"
  have b: "?new = (if ?c then token_add (js ''light-theme'') (body_classList p)
      else body_classList p)"
    by (rule startup_body_classList)
  have first: "?new =
     (if ?c then (if js ''light-theme'' \<in> set (body_classList p) then body_classList p
            else body_classList p @ [js ''light-theme''])
      else body_classList p)"
    unfolding b token_add_def ..
  have second: "js ''light-theme'' \<in> set ?new \<longleftrightarrow> ?c \<or> js ''light-theme'' \<in> set (body_classList p)"
  proof (cases ?c)
    case True
    have "?new = token_add (js ''light-theme'') (body_classList p)"
      unfolding b by (rule if_P) (rule True)
    then have "js ''light-theme'' \<in> set ?new"
      by (simp add: token_add_def)
    with True show ?thesis by blast
  next
    case False
    have n: "?new = body_classList p"
      unfolding b by (rule if_not_P) (rule False)
    show ?thesis
      unfolding n using False by blast
  qed
  have third: "localStorage (snd (on_DOMContentLoaded env p)) = localStorage p"
    using startup_frame [of env p] by simp
  from first second third show ?thesis by blast
qed

text \<open>
  C7, two starts of the sample page, whose body has no class, on a system that prefers
  light: with \<open>dark\<close> stored the class list stays empty, with nothing stored it becomes
  \<open>light-theme\<close>.
\<close>

theorem theme_applied_at_startup_witness:
  "body_classList (snd (on_DOMContentLoaded (sample_env True False upload_accepted)
       (sample_page\<lparr>localStorage := [js ''theme'' \<mapsto> js ''dark'']\<rparr>))) = [] \<and>
   body_classList (snd (on_DOMContentLoaded (sample_env True False upload_accepted)
       sample_page)) = [js ''light-theme'']"
proof -
  have a: "body_classList (snd (on_DOMContentLoaded (sample_env True False upload_accepted)
       (sample_page\<lparr>localStorage := [js ''theme'' \<mapsto> js ''dark'']\<rparr>))) = []"
    using theme_applied_at_startup [of "sample_env True False upload_accepted"
        "sample_page\<lparr>localStorage := [js ''theme'' \<mapsto> js ''dark'']\<rparr>"]
    by (simp add: sample_page_def sample_env_def)
  have b: "body_classList (snd (on_DOMContentLoaded (sample_env True False upload_accepted)
       sample_page)) = [js ''light-theme'']"
    using theme_applied_at_startup [of "sample_env True False upload_accepted" sample_page]
    by (simp add: sample_page_def sample_env_def)
  from a b show ?thesis by blast
qed

text \<open>
  C7 as stated fails twice. With the empty string stored under \<open>theme\<close> (a stored value
  other than \<open>light\<close>) and a system that prefers light, the class is applied. And with
  \<open>dark\<close> stored and a body that carries the class in its markup, the class is still
  present after startup: the binder never removes it.
\<close>

theorem theme_empty_string_counterexample:
  "\<not> (js ''light-theme'' \<in> set (body_classList (snd (on_DOMContentLoaded
          (sample_env True False upload_accepted)
          (sample_page\<lparr>localStorage := [js ''theme'' \<mapsto> []]\<rparr>)))) \<longleftrightarrow>
        localStorage (sample_page\<lparr>localStorage := [js ''theme'' \<mapsto> []]\<rparr>) (js ''theme'') =
          Some (js ''light'') \<or>
        (localStorage (sample_page\<lparr>localStorage := [js ''theme'' \<mapsto> []]\<rparr>) (js ''theme'') = None \<and>
           prefers_light (sample_env True False upload_accepted))) \<and>
   \<not> (js ''light-theme'' \<in> set (body_classList (snd (on_DOMContentLoaded
          (sample_env False False upload_accepted)
          (sample_page\<lparr>body_classList := [js ''light-theme''],
             localStorage := [js ''theme'' \<mapsto> js ''dark'']\<rparr>)))) \<longleftrightarrow>
        localStorage (sample_page\<lparr>body_classList := [js ''light-theme''],
             localStorage := [js ''theme'' \<mapsto> js ''dark'']\<rparr>) (js ''theme'') =
          Some (js ''light'') \<or>
        (localStorage (sample_page\<lparr>body_classList := [js ''light-theme''],
             localStorage := [js ''theme'' \<mapsto> js ''dark'']\<rparr>) (js ''theme'') = None \<and>
           prefers_light (sample_env False False upload_accepted)))"
  by (simp add: startup_body_classList token_add_def sample_page_def sample_env_def)

text \<open>The click listener of the toggle, and a click dispatched at the toggle.\<close>

lemma theme_click_fields:
  "body_classList (theme_click p) = token_toggle (js ''light-theme'') (body_classList p)"
  "localStorage (theme_click p) =
     (localStorage p)(js ''theme'' \<mapsto>
        (if js ''light-theme'' \<in> set (body_classList p) then js ''dark'' else js ''light''))"
  "listeners (theme_click p) = listeners p"
  by (simp_all add: theme_click_def Let_def token_toggle_member)

lemma run_listeners_append:
  "run_listeners env (xs @ ys) e p =
     (case run_listeners env xs e p of (e', q) \<Rightarrow> run_listeners env ys e' q)"
  by (induction xs arbitrary: e p) (auto split: prod.splits)

lemma run_confirms_frame:
  "body_classList (snd (run_listeners env (map ConfirmClick bs) e p)) = body_classList p \<and>
   localStorage (snd (run_listeners env (map ConfirmClick bs) e p)) = localStorage p \<and>
   listeners (snd (run_listeners env (map ConfirmClick bs) e p)) = listeners p"
proof (induction bs arbitrary: e p)
  case Nil
  show ?case by simp
next
  case (Cons b bs)
  obtain e' q where r: "confirm_click env b e p = (e', q)"
    by (cases "confirm_click env b e p")
  then have q: "body_classList q = body_classList p" "localStorage q = localStorage p"
      "listeners q = listeners p"
    by (auto simp: confirm_click_def emit_def Let_def split: if_splits)
  from Cons [of e' q] show ?case
    by (simp add: r q)
qed

lemma toggle_click_once:
  assumes l: "listeners_for q t Click = map ConfirmClick bs @ [ThemeClick]"
      and tgt: "target e = t"
  shows "body_classList (snd (dispatchEvent env Click e q)) =
           token_toggle (js ''light-theme'') (body_classList q) \<and>
         localStorage (snd (dispatchEvent env Click e q)) =
           (localStorage q)(js ''theme'' \<mapsto>
              (if js ''light-theme'' \<in> set (body_classList q) then js ''dark'' else js ''light'')) \<and>
         listeners (snd (dispatchEvent env Click e q)) = listeners q"
proof -
  obtain e' q' where r: "run_listeners env (map ConfirmClick bs) e q = (e', q')"
    by (cases "run_listeners env (map ConfirmClick bs) e q")
  with run_confirms_frame [of env bs e q]
  have q': "body_classList q' = body_classList q" "localStorage q' = localStorage q"
      "listeners q' = listeners q"
    by simp_all
  have "dispatchEvent env Click e q = (e', theme_click q')"
    using tgt by (simp add: dispatchEvent_def l run_listeners_append r)
  then show ?thesis
    by (simp add: theme_click_fields q')
qed

text \<open>
  C8 (as the code has it). On a page started without listeners and with the theme
  toggle, take any later state of the page with the listeners startup registered,
  whatever its class list and storage. Two clicks on the theme toggle bring the class
  \<open>light-theme\<close> back to where it was. The persisted entry then holds \<open>light\<close> when the class
  was present before the clicks and \<open>dark\<close> when it was not, whatever was stored before;
  every other key of the storage is as before. So the entry holds the originally stored
  value exactly when that value was already the name of the initial class state.
\<close>

theorem theme_toggle_twice:
  assumes fresh: "listeners p = []"
      and toggle: "getElementById p (js ''theme-toggle'') = Some toggleBtn"
      and same: "listeners q = listeners (snd (on_DOMContentLoaded env p))"
      and t1: "target e1 = toggleBtn"
      and t2: "target e2 = toggleBtn"
  shows "(js ''light-theme'' \<in> set (body_classList
            (snd (dispatchEvent env2 Click e2 (snd (dispatchEvent env1 Click e1 q))))) \<longleftrightarrow>
          js ''light-theme'' \<in> set (body_classList q)) \<and>
         set (body_classList
            (snd (dispatchEvent env2 Click e2 (snd (dispatchEvent env1 Click e1 q))))) =
           set (body_classList q) \<and>
         localStorage (snd (dispatchEvent env2 Click e2 (snd (dispatchEvent env1 Click e1 q)))) =
           (localStorage q)(js ''theme'' \<mapsto>
              (if js ''light-theme'' \<in> set (body_classList q) then js ''light''
               else js ''dark'')) \<and>
         (localStorage (snd (dispatchEvent env2 Click e2 (snd (dispatchEvent env1 Click e1 q))))
              (js ''theme'') = localStorage q (js ''theme'') \<longleftrightarrow>
            localStorage q (js ''theme'') =
              Some (if js ''light-theme'' \<in> set (body_classList q) then js ''light''
                    else js ''dark''))"
proof -
  let ?q1 = "snd (dispatchEvent env1 Click e1 q)"
  let ?q2 = "snd (dispatchEvent env2 Click e2 ?q1)"
  obtain bs where "listeners_for (snd (on_DOMContentLoaded env p)) toggleBtn Click =
      map ConfirmClick bs @ [ThemeClick]"
    using startup_toggle_listeners [OF fresh toggle, of env] by blast
  then have l: "listeners_for q toggleBtn Click = map ConfirmClick bs @ [ThemeClick]"
    using listeners_for_same [OF same] by simp
  note c1 = toggle_click_once [OF l t1, of env1]
  from c1 have "listeners ?q1 = listeners q" by blast
  then have "listeners_for ?q1 toggleBtn Click = listeners_for q toggleBtn Click"
    by (rule listeners_for_same)
  with l have l1: "listeners_for ?q1 toggleBtn Click = map ConfirmClick bs @ [ThemeClick]"
    by simp
  note c2 = toggle_click_once [OF l1 t2, of env2]
  from c1 have b1: "body_classList ?q1 = token_toggle (js ''light-theme'') (body_classList q)"
    by blast
  from c2 have "body_classList ?q2 = token_toggle (js ''light-theme'') (body_classList ?q1)"
    by blast
  then have b2: "body_classList ?q2 =
      token_toggle (js ''light-theme'') (token_toggle (js ''light-theme'') (body_classList q))"
    by (simp only: b1)
  have s: "set (body_classList ?q2) = set (body_classList q)"
    by (simp only: b2 token_toggle_twice)
  from c1 have s1: "localStorage ?q1 =
      (localStorage q)(js ''theme'' \<mapsto>
         (if js ''light-theme'' \<in> set (body_classList q) then js ''dark'' else js ''light''))"
    by blast
  from c2 have "localStorage ?q2 =
      (localStorage ?q1)(js ''theme'' \<mapsto>
         (if js ''light-theme'' \<in> set (body_classList ?q1) then js ''dark'' else js ''light''))"
    by blast
  then have st: "localStorage ?q2 =
      (localStorage q)(js ''theme'' \<mapsto>
         (if js ''light-theme'' \<in> set (body_classList q) then js ''light'' else js ''dark''))"
    by (simp add: s1 b1 token_toggle_member)
  have e: "localStorage ?q2 (js ''theme'') = localStorage q (js ''theme'') \<longleftrightarrow>
      localStorage q (js ''theme'') =
        Some (if js ''light-theme'' \<in> set (body_classList q) then js ''light'' else js ''dark'')"
    unfolding st by auto
  from s st e show ?thesis by simp
qed

text \<open>Evaluation of the sample page after startup.\<close>

lemma sample_toggle: "getElementById sample_page (js ''theme-toggle'') = Some 6"
  by (simp add: getElementById_def sample_page_def sample_heap_def blank_def)

lemma sample_fresh: "listeners sample_page = []"
  by (simp add: sample_page_def)

text \<open>
  C8, a run: the sample page after startup, with the class applied and \<open>light\<close> stored;
  after two clicks on the toggle (node 6) both are as before.
\<close>

theorem theme_toggle_twice_witness:
  "listeners sample_page = [] \<and>
   getElementById sample_page (js ''theme-toggle'') = Some 6 \<and>
   js ''light-theme'' \<in> set (body_classList
     (snd (dispatchEvent (sample_env False False upload_accepted) Click
        \<lparr>target = 6, submitter = None, defaultPrevented = False\<rparr>
        (snd (dispatchEvent (sample_env False False upload_accepted) Click
           \<lparr>target = 6, submitter = None, defaultPrevented = False\<rparr>
           ((snd (on_DOMContentLoaded (sample_env False False upload_accepted) sample_page))
              \<lparr>body_classList := [js ''light-theme''],
                localStorage := [js ''theme'' \<mapsto> js ''light'']\<rparr>)))))) \<and>
   localStorage
     (snd (dispatchEvent (sample_env False False upload_accepted) Click
        \<lparr>target = 6, submitter = None, defaultPrevented = False\<rparr>
        (snd (dispatchEvent (sample_env False False upload_accepted) Click
           \<lparr>target = 6, submitter = None, defaultPrevented = False\<rparr>
           ((snd (on_DOMContentLoaded (sample_env False False upload_accepted) sample_page))
              \<lparr>body_classList := [js ''light-theme''],
                localStorage := [js ''theme'' \<mapsto> js ''light'']\<rparr>)))))
     (js ''theme'') = Some (js ''light'')"
proof -
  let ?env = "sample_env False False upload_accepted"
  let ?e = "\<lparr>target = 6, submitter = None, defaultPrevented = False\<rparr>"
  let ?q = "(snd (on_DOMContentLoaded ?env sample_page))
      \<lparr>body_classList := [js ''light-theme''], localStorage := [js ''theme'' \<mapsto> js ''light'']\<rparr>"
  have same: "listeners ?q = listeners (snd (on_DOMContentLoaded ?env sample_page))"
    by simp
  have t: "target ?e = 6"
    by simp
  from theme_toggle_twice [OF sample_fresh sample_toggle same t t, of ?env ?env]
  have "js ''light-theme'' \<in> set (body_classList
          (snd (dispatchEvent ?env Click ?e (snd (dispatchEvent ?env Click ?e ?q))))) \<and>
      localStorage (snd (dispatchEvent ?env Click ?e (snd (dispatchEvent ?env Click ?e ?q))))
        (js ''theme'') = Some (js ''light'')"
    by simp
  with sample_fresh sample_toggle show ?thesis by blast
qed

text \<open>
  C8 as stated fails: the sample page after startup has neither the class nor a stored
  entry; two clicks on the toggle leave \<open>dark\<close> stored, where there was no entry before.
\<close>

theorem theme_toggle_twice_absent_entry_counterexample:
  "localStorage (snd (on_DOMContentLoaded (sample_env False False upload_accepted) sample_page))
     (js ''theme'') = None \<and>
   js ''light-theme'' \<notin> set (body_classList
     (snd (on_DOMContentLoaded (sample_env False False upload_accepted) sample_page))) \<and>
   js ''light-theme'' \<notin> set (body_classList
     (snd (dispatchEvent (sample_env False False upload_accepted) Click
        \<lparr>target = 6, submitter = None, defaultPrevented = False\<rparr>
        (snd (dispatchEvent (sample_env False False upload_accepted) Click
           \<lparr>target = 6, submitter = None, defaultPrevented = False\<rparr>
           (snd (on_DOMContentLoaded (sample_env False False upload_accepted)
              sample_page))))))) \<and>
   localStorage
     (snd (dispatchEvent (sample_env False False upload_accepted) Click
        \<lparr>target = 6, submitter = None, defaultPrevented = False\<rparr>
        (snd (dispatchEvent (sample_env False False upload_accepted) Click
           \<lparr>target = 6, submitter = None, defaultPrevented = False\<rparr>
           (snd (on_DOMContentLoaded (sample_env False False upload_accepted)
              sample_page))))))
     (js ''theme'') = Some (js ''dark'')"
proof -
  let ?env = "sample_env False False upload_accepted"
  let ?e = "\<lparr>target = 6, submitter = None, defaultPrevented = False\<rparr>"
  let ?q = "snd (on_DOMContentLoaded ?env sample_page)"
  let ?q1 = "snd (dispatchEvent ?env Click ?e ?q)"
  let ?q2 = "snd (dispatchEvent ?env Click ?e ?q1)"
  have st0: "localStorage ?q = Map.empty"
    using startup_frame [of ?env sample_page] by (simp add: sample_page_def)
  have b0: "body_classList ?q = []"
    by (simp add: startup_body_classList sample_page_def sample_env_def)
  have t: "target ?e = 6"
    by simp
  obtain bs where l: "listeners_for ?q 6 Click = map ConfirmClick bs @ [ThemeClick]"
    using startup_toggle_listeners [OF sample_fresh sample_toggle, of ?env] by blast
  note c1 = toggle_click_once [OF l t, of ?env]
  from c1 have "listeners ?q1 = listeners ?q" by blast
  then have "listeners_for ?q1 6 Click = listeners_for ?q 6 Click"
    by (rule listeners_for_same)
  with l have l1: "listeners_for ?q1 6 Click = map ConfirmClick bs @ [ThemeClick]"
    by simp
  note c2 = toggle_click_once [OF l1 t, of ?env]
  from c1 have b1: "body_classList ?q1 = [js ''light-theme'']"
    by (simp add: b0 token_toggle_def)
  from c2 have b2: "body_classList ?q2 = []"
    by (simp add: b1 token_toggle_def)
  from c2 have s2: "localStorage ?q2 (js ''theme'') = Some (js ''dark'')"
    by (simp add: b1)
  from st0 b0 b2 s2 show ?thesis by simp
qed


end
